theory Spec2Isabelle
  imports Complex_Main "HOL-Library.Code_Target_Nat"
begin

section \<open>Text\<close>

text \<open>
  JavaScript strings are modelled as \<open>string\<close>; a character beyond ASCII stands as its
  UTF-8 bytes, and \<open>toLowerCase\<close>/\<open>toUpperCase\<close> change the ASCII letters only.
\<close>

definition toLowerChar :: "char \<Rightarrow> char" where
  "toLowerChar c =
     (let n = (of_char c :: nat) in if 65 \<le> n \<and> n \<le> 90 then char_of (n + 32) else c)"

definition toUpperChar :: "char \<Rightarrow> char" where
  "toUpperChar c =
     (let n = (of_char c :: nat) in if 97 \<le> n \<and> n \<le> 122 then char_of (n - 32) else c)"

definition toLowerCase :: "string \<Rightarrow> string" where
  "toLowerCase s = map toLowerChar s"

definition toUpperCase :: "string \<Rightarrow> string" where
  "toUpperCase s = map toUpperChar s"

fun startsWith :: "string \<Rightarrow> string \<Rightarrow> bool" where
  "startsWith s [] = True"
| "startsWith [] (p # ps) = False"
| "startsWith (c # cs) (p # ps) = (if c = p then startsWith cs ps else False)"

definition endsWith :: "string \<Rightarrow> string \<Rightarrow> bool" where
  "endsWith s p = startsWith (rev s) (rev p)"

fun includesStr :: "string \<Rightarrow> string \<Rightarrow> bool" where
  "includesStr [] p = (p = [])"
| "includesStr (c # cs) p = (if startsWith (c # cs) p then True else includesStr cs p)"

fun indexOf :: "string \<Rightarrow> string \<Rightarrow> nat option" where
  "indexOf [] p = (if p = [] then Some 0 else None)"
| "indexOf (c # cs) p =
     (if startsWith (c # cs) p then Some 0 else map_option Suc (indexOf cs p))"

definition slice :: "string \<Rightarrow> nat \<Rightarrow> nat \<Rightarrow> string" where
  "slice s start stop = take (stop - start) (drop start s)"

definition isDigit :: "char \<Rightarrow> bool" where
  "isDigit c = (let n = (of_char c :: nat) in 48 \<le> n \<and> n \<le> 57)"

definition digitChar :: "nat \<Rightarrow> char" where
  "digitChar d = char_of (48 + d mod 10)"

fun showNat :: "nat \<Rightarrow> string" where
  "showNat n = (if n < 10 then [digitChar n] else showNat (n div 10) @ [digitChar (n mod 10)])"

declare showNat.simps [simp del]

definition showInt :: "int \<Rightarrow> string" where
  "showInt i = (if i < 0 then CHR ''-'' # showNat (nat (- i)) else showNat (nat i))"

definition padLeft :: "nat \<Rightarrow> string \<Rightarrow> string" where
  "padLeft w s = replicate (w - length s) (CHR ''0'') @ s"

definition showPadded :: "nat \<Rightarrow> nat \<Rightarrow> string" where
  "showPadded w n = padLeft w (showNat n)"

fun readNat :: "nat \<Rightarrow> string \<Rightarrow> nat option" where
  "readNat acc [] = Some acc"
| "readNat acc (c # cs) =
     (if isDigit c then readNat (acc * 10 + ((of_char c :: nat) - 48)) cs else None)"

definition parseDigits :: "string \<Rightarrow> nat option" where
  "parseDigits s = (if s = [] then None else readNat 0 s)"

section \<open>Values and dates\<close>

text \<open>
  The values that travel through \<open>unknown\<close>-typed positions: JSON scalars, and a
  \<open>Date\<close> held by the invoice. Numbers are real numbers here (the source computes in
  IEEE doubles); a \<open>Date\<close> is its time value in milliseconds.
\<close>

datatype jvalue = JNull | JBool bool | JNum real | JStr string | JDate int

definition daysFromCivil :: "int \<Rightarrow> int \<Rightarrow> int \<Rightarrow> int" where
  "daysFromCivil y m d =
     (let y' = (if m \<le> 2 then y - 1 else y);
          era = y' div 400;
          yoe = y' mod 400;
          doy = (153 * (if m > 2 then m - 3 else m + 9) + 2) div 5 + d - 1;
          doe = yoe * 365 + yoe div 4 - yoe div 100 + doy
      in era * 146097 + doe - 719468)"

definition civilFromDays :: "int \<Rightarrow> int \<times> int \<times> int" where
  "civilFromDays z0 =
     (let z = z0 + 719468;
          era = z div 146097;
          doe = z mod 146097;
          yoe = (doe - doe div 1460 + doe div 36524 - doe div 146096) div 365;
          doy = doe - (365 * yoe + yoe div 4 - yoe div 100);
          mp = (5 * doy + 2) div 153;
          d = doy - (153 * mp + 2) div 5 + 1;
          m = (if mp < 10 then mp + 3 else mp - 9);
          y = yoe + era * 400 + (if m \<le> 2 then 1 else 0)
      in (y, m, d))"

definition msPerDay :: int where
  "msPerDay = 1000 * 60 * 60 * 24"

text \<open>\<open>Date.prototype.toISOString\<close> (years 0 to 9999, the four-digit form).\<close>

definition toISOString :: "int \<Rightarrow> string" where
  "toISOString t =
     (let (y, m, d) = civilFromDays (t div msPerDay);
          ms = t mod msPerDay
      in showPadded 4 (nat y) @ ''-'' @ showPadded 2 (nat m) @ ''-'' @ showPadded 2 (nat d)
         @ ''T'' @ showPadded 2 (nat (ms div 3600000))
         @ '':'' @ showPadded 2 (nat (ms mod 3600000 div 60000))
         @ '':'' @ showPadded 2 (nat (ms mod 60000 div 1000))
         @ ''.'' @ showPadded 3 (nat (ms mod 1000)) @ ''Z'')"

definition daysInMonth :: "int \<Rightarrow> int \<Rightarrow> int" where
  "daysInMonth y m =
     (if m = 2 then (if y mod 4 = 0 \<and> (y mod 100 \<noteq> 0 \<or> y mod 400 = 0) then 29 else 28)
      else if m = 4 \<or> m = 6 \<or> m = 9 \<or> m = 11 then 30 else 31)"

definition parseCivil :: "string \<Rightarrow> int option" where
  "parseCivil s =
     (if length s = 10 \<and> s ! 4 = CHR ''-'' \<and> s ! 7 = CHR ''-'' then
        (case (parseDigits (take 4 s), parseDigits (take 2 (drop 5 s)),
               parseDigits (take 2 (drop 8 s))) of
           (Some y, Some m, Some d) \<Rightarrow>
             (if 1 \<le> m \<and> m \<le> 12 \<and> 1 \<le> d \<and> int d \<le> daysInMonth (int y) (int m)
              then Some (daysFromCivil (int y) (int m) (int d)) else None)
         | _ \<Rightarrow> None)
      else None)"

definition parseClock :: "string \<Rightarrow> int option" where
  "parseClock s =
     (if length s = 14 \<and> s ! 0 = CHR ''T'' \<and> s ! 3 = CHR '':'' \<and> s ! 6 = CHR '':''
         \<and> s ! 9 = CHR ''.'' \<and> s ! 13 = CHR ''Z'' then
        (case (parseDigits (take 2 (drop 1 s)), parseDigits (take 2 (drop 4 s)),
               parseDigits (take 2 (drop 7 s)), parseDigits (take 3 (drop 10 s))) of
           (Some h, Some mi, Some sec, Some ms) \<Rightarrow>
             (if h < 24 \<and> mi < 60 \<and> sec < 60
              then Some (int h * 3600000 + int mi * 60000 + int sec * 1000 + int ms) else None)
         | _ \<Rightarrow> None)
      else None)"

text \<open>
  \<open>new Date(text).getTime()\<close>: the two ISO forms the language fixes, the date alone
  (UTC midnight) and the full form \<open>toISOString\<close> writes. \<open>None\<close> is the Invalid Date,
  whose time value is NaN. The other formats an engine may accept are not modelled.
\<close>

definition dateParse :: "string \<Rightarrow> int option" where
  "dateParse s =
     (if length s = 10 then map_option (\<lambda>d. d * msPerDay) (parseCivil s)
      else if length s = 24 then
        (case (parseCivil (take 10 s), parseClock (drop 10 s)) of
           (Some d, Some ms) \<Rightarrow> Some (d * msPerDay + ms)
         | _ \<Rightarrow> None)
      else None)"

section \<open>JSON text\<close>

fun fracDigits :: "nat \<Rightarrow> real \<Rightarrow> string" where
  "fracDigits 0 f = []"
| "fracDigits (Suc n) f =
     (if f = 0 then []
      else digitChar (nat \<lfloor>f * 10\<rfloor>) # fracDigits n (f * 10 - of_int \<lfloor>f * 10\<rfloor>))"

text \<open>A number as JSON text: plain decimal notation, at most 17 fraction digits.\<close>

definition showNumber :: "real \<Rightarrow> string" where
  "showNumber x =
     (let a = \<bar>x\<bar>; ip = \<lfloor>a\<rfloor>; f = a - of_int ip
      in (if x < 0 then ''-'' else '''') @ showNat (nat ip)
         @ (if f = 0 then '''' else CHR ''.'' # fracDigits 17 f))"

text \<open>
  The characters of a string inside the quotes of \<open>JSON.stringify\<close>: the double quote
  and the backslash get a backslash, the control characters below U+0020 their short
  escape or \<open>\u00XX\<close> in lower-case hexadecimal, every other character is itself.
\<close>

definition hexDigit :: "nat \<Rightarrow> char" where
  "hexDigit d = (if d mod 16 < 10 then char_of (48 + d mod 16) else char_of (87 + d mod 16))"

definition escapeChar :: "char \<Rightarrow> string" where
  "escapeChar c =
     (let n = (of_char c :: nat) in
        if c = CHR 0x22 then [CHR 0x5C, CHR 0x22]
        else if c = CHR 0x5C then [CHR 0x5C, CHR 0x5C]
        else if c = CHR 0x08 then [CHR 0x5C, CHR ''b'']
        else if c = CHR 0x09 then [CHR 0x5C, CHR ''t'']
        else if c = CHR 0x0A then [CHR 0x5C, CHR ''n'']
        else if c = CHR 0x0C then [CHR 0x5C, CHR ''f'']
        else if c = CHR 0x0D then [CHR 0x5C, CHR ''r'']
        else if n < 32 then [CHR 0x5C, CHR ''u'', CHR ''0'', CHR ''0'', hexDigit (n div 16), hexDigit n]
        else [c])"

fun escapeChars :: "string \<Rightarrow> string" where
  "escapeChars [] = []"
| "escapeChars (c # cs) = escapeChar c @ escapeChars cs"

definition quoted :: "string \<Rightarrow> string" where
  "quoted s = CHR 0x22 # escapeChars s @ [CHR 0x22]"

fun stringifyValue :: "jvalue \<Rightarrow> string" where
  "stringifyValue JNull = ''null''"
| "stringifyValue (JBool b) = (if b then ''true'' else ''false'')"
| "stringifyValue (JNum x) = showNumber x"
| "stringifyValue (JStr s) = quoted s"
| "stringifyValue (JDate t) = quoted (toISOString t)"

fun joinWith :: "string \<Rightarrow> string list \<Rightarrow> string" where
  "joinWith sep [] = []"
| "joinWith sep [x] = x"
| "joinWith sep (x # y # ys) = x @ sep @ joinWith sep (y # ys)"

definition stringifyObject :: "(string \<times> string) list \<Rightarrow> string" where
  "stringifyObject props =
     ''{'' @ joinWith '','' (map (\<lambda>(k, v). quoted k @ '':'' @ v) props) @ ''}''"

text \<open>Property assignment on a plain object: an existing key keeps its place.\<close>

fun setProp :: "string \<Rightarrow> 'v \<Rightarrow> (string \<times> 'v) list \<Rightarrow> (string \<times> 'v) list" where
  "setProp k v [] = [(k, v)]"
| "setProp k v ((k', v') # ps) =
     (if k' = k then (k, v) # ps else (k', v') # setProp k v ps)"

definition deleteProp :: "string \<Rightarrow> (string \<times> 'v) list \<Rightarrow> (string \<times> 'v) list" where
  "deleteProp k ps = filter (\<lambda>p. fst p \<noteq> k) ps"

text \<open>
  Assigning a possibly \<open>undefined\<close> value to a property of an object that is then
  serialised: \<open>JSON.stringify\<close> leaves a property whose value is \<open>undefined\<close> out.
\<close>

definition assignProp :: "string \<Rightarrow> 'v option \<Rightarrow> (string \<times> 'v) list \<Rightarrow> (string \<times> 'v) list" where
  "assignProp k v ps = (case v of None \<Rightarrow> deleteProp k ps | Some x \<Rightarrow> setProp k x ps)"

section \<open>Memories and their content\<close>

datatype MemoryKind = Ephemeral | Long_term | System

datatype LearnedMemoryCategory = Vendor | Correction | Resolution | Duplicate

datatype ResolutionStatus = Approved | Rejected

text \<open>
  \<open>Partial<LearnedMemoryContent>\<close>, what \<open>JSON.parse\<close> yields for a memory's content:
  every property may be missing. \<open>None\<close> for \<open>p_confidence\<close> or \<open>p_usageCount\<close> also covers
  a value that is not a number.
\<close>

record PartialContent =
  p_category :: "LearnedMemoryCategory option"
  p_vendorName :: "string option"
  p_invoiceNumber :: "string option"
  p_invoiceDate :: "string option"
  p_field :: "string option"
  p_pattern :: "string option"
  p_resolutionStatus :: "ResolutionStatus option"
  p_confidence :: "real option"
  p_usageCount :: "int option"
  p_metadata :: "(string \<times> jvalue) list option"

record LearnedMemoryContent =
  category :: LearnedMemoryCategory
  vendorName :: "string option"
  invoiceNumber :: "string option"
  invoiceDate :: "string option"
  field :: "string option"
  pattern :: "string option"
  resolutionStatus :: "ResolutionStatus option"
  confidence :: real
  usageCount :: int
  metadata :: "(string \<times> jvalue) list option"

text \<open>
  The content column holds text. \<open>Json c\<close> is the JSON text of an object with the
  properties \<open>c\<close>, as \<open>JSON.stringify\<close> writes it; \<open>Other s\<close> is any other text \<open>s\<close>:
  the JSON text \<open>null\<close>, or a text that \<open>JSON.parse\<close> rejects. The JSON text of a
  number, a string, a boolean or an array goes with the rejected ones: every property the
  program reads from such a value is \<open>undefined\<close>, as it is from the \<open>{}\<close> or the
  defaults that stand in for a rejected text.
\<close>

datatype ContentText = Json PartialContent | Other string

datatype error = SyntaxError | TypeError

text \<open>What \<open>JSON.parse\<close> returns: \<open>null\<close>, or an object.\<close>

datatype JsonValue = JsonNull | JsonObject PartialContent

record Memory =
  m_id :: string
  kind :: MemoryKind
  content :: ContentText
  createdAt :: int
  updatedAt :: int
  source :: "string option"

definition emptyContent :: PartialContent where
  "emptyContent = \<lparr> p_category = None, p_vendorName = None, p_invoiceNumber = None,
     p_invoiceDate = None, p_field = None, p_pattern = None, p_resolutionStatus = None,
     p_confidence = None, p_usageCount = None, p_metadata = None \<rparr>"

text \<open>The white space that JSON allows around a value.\<close>

definition isJsonSpace :: "char \<Rightarrow> bool" where
  "isJsonSpace c = (c = CHR 0x20 \<or> c = CHR 0x09 \<or> c = CHR 0x0A \<or> c = CHR 0x0D)"

definition isNullText :: "string \<Rightarrow> bool" where
  "isNullText s = (rev (dropWhile isJsonSpace (rev (dropWhile isJsonSpace s))) = ''null'')"

text \<open>\<open>JSON.parse\<close>: it throws a \<open>SyntaxError\<close> on text that is no JSON.\<close>

definition jsonParse :: "ContentText \<Rightarrow> error + JsonValue" where
  "jsonParse t =
     (case t of
        Json c \<Rightarrow> Inr (JsonObject c)
      | Other s \<Rightarrow> if isNullText s then Inr JsonNull else Inl SyntaxError)"

text \<open>
  Reading a property of a parsed value, as in \<open>parsed.confidence\<close>: on \<open>null\<close> it throws
  a \<open>TypeError\<close>; on an object the properties are at hand.
\<close>

definition properties :: "JsonValue \<Rightarrow> error + PartialContent" where
  "properties v = (case v of JsonNull \<Rightarrow> Inl TypeError | JsonObject c \<Rightarrow> Inr c)"

text \<open>
  The parse and the property reads inside one \<open>try\<close> block whose \<open>catch\<close> swallows the
  error: \<open>None\<close> when either throws.
\<close>

definition tryProperties :: "ContentText \<Rightarrow> PartialContent option" where
  "tryProperties t =
     (case jsonParse t of
        Inl e \<Rightarrow> None
      | Inr v \<Rightarrow> (case properties v of Inl e \<Rightarrow> None | Inr c \<Rightarrow> Some c))"

fun categoryName :: "LearnedMemoryCategory \<Rightarrow> string" where
  "categoryName Vendor = ''vendor''"
| "categoryName Correction = ''correction''"
| "categoryName Resolution = ''resolution''"
| "categoryName Duplicate = ''duplicate''"

fun statusName :: "ResolutionStatus \<Rightarrow> string" where
  "statusName Approved = ''approved''"
| "statusName Rejected = ''rejected''"

definition optProp :: "string \<Rightarrow> ('a \<Rightarrow> string) \<Rightarrow> 'a option \<Rightarrow> (string \<times> string) list" where
  "optProp k render v = (case v of None \<Rightarrow> [] | Some x \<Rightarrow> [(k, render x)])"

definition stringifyMetadata :: "(string \<times> jvalue) list \<Rightarrow> string" where
  "stringifyMetadata md = stringifyObject (map (\<lambda>(k, v). (k, stringifyValue v)) md)"

text \<open>\<open>JSON.stringify\<close> of a content object, its properties in one fixed order.\<close>

definition stringifyContent :: "PartialContent \<Rightarrow> string" where
  "stringifyContent c = stringifyObject
     (optProp ''category'' (\<lambda>x. quoted (categoryName x)) (p_category c)
      @ optProp ''vendorName'' quoted (p_vendorName c)
      @ optProp ''invoiceNumber'' quoted (p_invoiceNumber c)
      @ optProp ''invoiceDate'' quoted (p_invoiceDate c)
      @ optProp ''field'' quoted (p_field c)
      @ optProp ''pattern'' quoted (p_pattern c)
      @ optProp ''resolutionStatus'' (\<lambda>x. quoted (statusName x)) (p_resolutionStatus c)
      @ optProp ''confidence'' showNumber (p_confidence c)
      @ optProp ''usageCount'' showInt (p_usageCount c)
      @ optProp ''metadata'' stringifyMetadata (p_metadata c))"

definition contentText :: "ContentText \<Rightarrow> string" where
  "contentText t = (case t of Json c \<Rightarrow> stringifyContent c | Other s \<Rightarrow> s)"

section \<open>The memory repository\<close>

text \<open>
  The table \<open>memories\<close>, its rows in insertion order. \<open>saveMemory\<close> is the upsert on the
  primary key \<open>id\<close>; \<open>searchMemories\<close> is \<open>content LIKE '%query%' LIMIT limit\<close>.
\<close>

type_synonym MemoryRepository = "Memory list"

fun saveMemory :: "MemoryRepository \<Rightarrow> Memory \<Rightarrow> MemoryRepository" where
  "saveMemory [] m = [m]"
| "saveMemory (r # rs) m = (if m_id r = m_id m then m # rs else r # saveMemory rs m)"

definition getMemoryById :: "MemoryRepository \<Rightarrow> string \<Rightarrow> Memory option" where
  "getMemoryById repo i = find (\<lambda>r. m_id r = i) repo"

text \<open>
  SQLite's \<open>LIKE\<close>: \<open>%\<close> matches any run of characters, \<open>_\<close> any one character, and
  ASCII letters match without regard to case.
\<close>

fun like :: "string \<Rightarrow> string \<Rightarrow> bool" where
  "like [] [] = True"
| "like [] (c # cs) = False"
| "like (p # ps) [] = (if p = CHR ''%'' then like ps [] else False)"
| "like (p # ps) (c # cs) =
     (if p = CHR ''%'' then (if like ps (c # cs) then True else like (p # ps) cs)
      else if p = CHR ''_'' then like ps cs
      else if toLowerChar p = toLowerChar c then like ps cs
      else False)"

definition searchMemories :: "MemoryRepository \<Rightarrow> string \<Rightarrow> nat \<Rightarrow> Memory list" where
  "searchMemories repo query limit =
     take limit (filter (\<lambda>r. like (''%'' @ query @ ''%'') (contentText (content r))) repo)"

section \<open>Learn\<close>

record SignalDetails =
  d_memoryId :: "string option"
  d_approved :: "bool option"
  d_field :: "string option"
  d_value :: "jvalue option"
  d_vendorName :: "string option"
  d_invoiceNumber :: "string option"
  d_invoiceDate :: "string option"
  d_resolutionStatus :: "ResolutionStatus option"
  d_isDuplicate :: "bool option"

datatype AuditEventType = RecallStep | ApplyStep | DecideStep | LearnStep

record AuditEvent =
  ev_id :: string
  ev_type :: AuditEventType
  ev_timestamp :: int
  details :: SignalDetails

record LearningSignal =
  event :: AuditEvent
  feedbackScore :: "real option"

text \<open>
  \<open>uuidv4()\<close> draws from a supply \<open>gen\<close> of identifiers; the state counts the draws.
  \<open>new Date()\<close> is the parameter \<open>now\<close>.
\<close>

definition uuidv4 :: "(nat \<Rightarrow> string) \<Rightarrow> nat \<Rightarrow> string \<times> nat" where
  "uuidv4 gen n = (gen n, Suc n)"

definition isLineItemSku :: "string option \<Rightarrow> bool" where
  "isLineItemSku f =
     (case f of None \<Rightarrow> False
      | Some s \<Rightarrow> s \<noteq> [] \<and> startsWith s ''lineItem:'' \<and> endsWith s '':sku'')"

definition isVatField :: "string option \<Rightarrow> bool" where
  "isVatField f = (f = Some ''taxAmount'' \<or> f = Some ''grossAmount'')"

definition orElse :: "'a option \<Rightarrow> 'a option \<Rightarrow> 'a option" where
  "orElse a b = (case a of None \<Rightarrow> b | Some x \<Rightarrow> Some x)"

definition createdContent :: "SignalDetails \<Rightarrow> bool \<Rightarrow> PartialContent" where
  "createdContent d approved =
     (let fld = d_field d;
          initialConfidence = (if approved then 0.8 else 0.5);
          (category1, storedField1) =
            (if isVatField fld then (Vendor, Some ''vatIncluded'') else (Correction, fld));
          (category2, storedField) =
            (if isLineItemSku fld then (Vendor, Some ''freightSku'')
             else (category1, storedField1));
          baseMetadata = assignProp ''value'' (d_value d)
            (assignProp ''field'' (map_option JStr fld) []);
          baseMetadata' =
            (if storedField = Some ''freightSku''
             then assignProp ''proposedValue'' (d_value d) baseMetadata else baseMetadata)
      in \<lparr> p_category = Some category2, p_vendorName = d_vendorName d,
           p_invoiceNumber = d_invoiceNumber d, p_invoiceDate = d_invoiceDate d,
           p_field = storedField, p_pattern = None, p_resolutionStatus = None,
           p_confidence = Some initialConfidence, p_usageCount = Some 1,
           p_metadata = Some baseMetadata' \<rparr>)"

definition updatedContent :: "PartialContent \<Rightarrow> SignalDetails \<Rightarrow> bool \<Rightarrow> real option \<Rightarrow> PartialContent" where
  "updatedContent parsed d approved fs =
     (let fld = d_field d;
          currentConfidence = (case p_confidence parsed of Some c \<Rightarrow> c | None \<Rightarrow> 0.7);
          currentUsage = (case p_usageCount parsed of Some u \<Rightarrow> u | None \<Rightarrow> 0);
          delta = 0.05 * (case fs of Some x \<Rightarrow> x | None \<Rightarrow> 1);
          newConfidence =
            (if approved then min (currentConfidence + delta) 0.95
             else max (currentConfidence - delta) 0);
          category0 = (case p_category parsed of Some c \<Rightarrow> c | None \<Rightarrow> Correction);
          storedField0 = orElse (p_field parsed) fld;
          (category1, storedField1) =
            (if isVatField fld then (Vendor, Some ''vatIncluded'') else (category0, storedField0));
          (category2, storedField) =
            (if isLineItemSku fld then (Vendor, Some ''freightSku'')
             else (category1, storedField1));
          metadata0 = assignProp ''value'' (d_value d)
            (assignProp ''field'' (map_option JStr fld)
               (case p_metadata parsed of Some md \<Rightarrow> md | None \<Rightarrow> []));
          metadata1 =
            (if storedField = Some ''freightSku''
             then assignProp ''proposedValue'' (d_value d) metadata0 else metadata0)
      in \<lparr> p_category = Some category2,
           p_vendorName = orElse (p_vendorName parsed) (d_vendorName d),
           p_invoiceNumber = orElse (p_invoiceNumber parsed) (d_invoiceNumber d),
           p_invoiceDate = orElse (p_invoiceDate parsed) (d_invoiceDate d),
           p_field = storedField, p_pattern = None, p_resolutionStatus = None,
           p_confidence = Some newConfidence, p_usageCount = Some (currentUsage + 1),
           p_metadata = Some metadata1 \<rparr>)"

definition resolutionContent :: "SignalDetails \<Rightarrow> bool \<Rightarrow> PartialContent" where
  "resolutionContent d approved =
     \<lparr> p_category = Some Resolution, p_vendorName = d_vendorName d,
       p_invoiceNumber = d_invoiceNumber d, p_invoiceDate = d_invoiceDate d,
       p_field = None, p_pattern = None,
       p_resolutionStatus = orElse (d_resolutionStatus d)
         (if d_isDuplicate d = Some True then Some Approved else None),
       p_confidence = Some (if approved then 0.8 else 0.5), p_usageCount = Some 1,
       p_metadata = Some [(''isDuplicate'', JBool (d_isDuplicate d = Some True))] \<rparr>"

text \<open>
  \<open>learnFromSignal\<close>: the state is the repository and the count of identifiers drawn;
  the result is the memory returned, \<open>None\<close> for \<open>undefined\<close>, or the error thrown.
  On the path of an existing memory the parse is inside a \<open>try\<close> whose \<open>catch\<close> puts
  \<open>{}\<close> in its place; the first property read, \<open>parsed.confidence\<close>, is outside of it
  and throws when the content parsed to \<open>null\<close>, before anything is saved.
\<close>

definition learnFromSignal ::
  "(nat \<Rightarrow> string) \<Rightarrow> int \<Rightarrow> MemoryRepository \<times> nat \<Rightarrow> LearningSignal
     \<Rightarrow> (MemoryRepository \<times> nat) \<times> (error + Memory option)" where
  "learnFromSignal gen now st signal =
     (let (repo, n) = st; d = details (event signal) in
      case (d_memoryId d, d_approved d) of
        (None, _) \<Rightarrow> (st, Inr None)
      | (Some memoryId, None) \<Rightarrow> (st, Inr None)
      | (Some memoryId, Some approved) \<Rightarrow>
          if memoryId = [] then (st, Inr None)
          else
            (case getMemoryById repo memoryId of
               None \<Rightarrow>
                 (let memory = \<lparr> m_id = memoryId, kind = Long_term,
                        content = Json (createdContent d approved),
                        createdAt = now, updatedAt = now, source = Some ''learn'' \<rparr>
                  in ((saveMemory repo memory, n), Inr (Some memory)))
             | Some existing \<Rightarrow>
                 (case properties (case jsonParse (content existing) of
                                     Inr v \<Rightarrow> v | Inl e \<Rightarrow> JsonObject emptyContent) of
                    Inl e \<Rightarrow> (st, Inl e)
                  | Inr parsed \<Rightarrow>
                      (let updatedMemory = existing
                             \<lparr> content := Json (updatedContent parsed d approved
                                                     (feedbackScore signal)),
                               updatedAt := now \<rparr>;
                           repo1 = saveMemory repo updatedMemory
                       in if d_resolutionStatus d \<noteq> None \<or> d_isDuplicate d = Some True then
                            (let (newId, n') = uuidv4 gen n;
                                 resolutionMemory = \<lparr> m_id = newId, kind = Long_term,
                                   content = Json (resolutionContent d approved),
                                   createdAt = now, updatedAt = now,
                                   source = Some ''learn:resolution'' \<rparr>
                             in ((saveMemory repo1 resolutionMemory, n'), Inr (Some updatedMemory)))
                          else ((repo1, n), Inr (Some updatedMemory))))))"

section \<open>Recall\<close>

record RecallQuery =
  q_vendorName :: string
  q_invoiceNumber :: string
  q_invoiceDate :: int
  q_rawText :: "string option"
  q_limit :: "nat option"

record ScoredLearnedMemory =
  memory :: Memory
  learned :: LearnedMemoryContent
  score :: real

record RecallSummary =
  vendorMemories :: "ScoredLearnedMemory list"
  correctionMemories :: "ScoredLearnedMemory list"
  resolutionMemories :: "ScoredLearnedMemory list"
  duplicateDetected :: bool
  duplicateScore :: real
  duplicateReason :: "string option"
  allMemories :: "ScoredLearnedMemory list"

definition parseLearnedContent :: "Memory \<Rightarrow> LearnedMemoryContent option" where
  "parseLearnedContent m =
     (case tryProperties (content m) of
        None \<Rightarrow> None
      | Some p \<Rightarrow>
          (case (p_confidence p, p_usageCount p, p_category p) of
             (Some c, Some u, Some cat) \<Rightarrow>
               Some \<lparr> category = cat, vendorName = p_vendorName p,
                      invoiceNumber = p_invoiceNumber p, invoiceDate = p_invoiceDate p,
                      field = p_field p, pattern = p_pattern p,
                      resolutionStatus = p_resolutionStatus p, confidence = c,
                      usageCount = u, metadata = p_metadata p \<rparr>
           | _ \<Rightarrow> None))"

text \<open>The three bonus conditions of \<open>scoreMemory\<close>, as the source tests them.\<close>

definition vendorBonus :: "LearnedMemoryContent \<Rightarrow> string \<Rightarrow> bool" where
  "vendorBonus c vendor =
     (case vendorName c of None \<Rightarrow> False
      | Some v \<Rightarrow> v \<noteq> [] \<and> toLowerCase v = toLowerCase vendor)"

definition numberBonus :: "LearnedMemoryContent \<Rightarrow> string \<Rightarrow> bool" where
  "numberBonus c number =
     (case invoiceNumber c of None \<Rightarrow> False | Some v \<Rightarrow> v \<noteq> [] \<and> v = number)"

definition dateBonus :: "LearnedMemoryContent \<Rightarrow> int \<Rightarrow> bool" where
  "dateBonus c date =
     (case invoiceDate c of None \<Rightarrow> False
      | Some v \<Rightarrow> v \<noteq> [] \<and>
          (case dateParse v of None \<Rightarrow> False
           | Some stored \<Rightarrow> real_of_int \<bar>stored - date\<bar> / real_of_int msPerDay \<le> 2))"

definition scoreMemory :: "LearnedMemoryContent \<Rightarrow> string \<Rightarrow> string \<Rightarrow> int \<Rightarrow> real" where
  "scoreMemory c vendor number date =
     (let score0 = confidence c;
          score1 = (if vendorBonus c vendor then score0 + 0.05 else score0);
          score2 = (if numberBonus c number then score1 + 0.05 else score1);
          score3 = (if dateBonus c date then score2 + 0.05 else score2)
      in min score3 1)"

text \<open>
  \<open>Array.prototype.sort\<close> is stable; the comparator \<open>b.score - a.score\<close> orders by
  falling score.
\<close>

definition filterByCategory ::
  "ScoredLearnedMemory list \<Rightarrow> LearnedMemoryCategory \<Rightarrow> ScoredLearnedMemory list" where
  "filterByCategory memories cat =
     sort_key (\<lambda>m. - score m) (filter (\<lambda>m. category (learned m) = cat) memories)"

definition scoreAll :: "Memory list \<Rightarrow> RecallQuery \<Rightarrow> ScoredLearnedMemory list" where
  "scoreAll ms q =
     concat (map (\<lambda>m. case parseLearnedContent m of
                         None \<Rightarrow> []
                       | Some c \<Rightarrow> [\<lparr> memory = m, learned = c,
                            score = scoreMemory c (q_vendorName q) (q_invoiceNumber q)
                                      (q_invoiceDate q) \<rparr>]) ms)"

definition isDuplicateCandidate :: "RecallQuery \<Rightarrow> ScoredLearnedMemory \<Rightarrow> bool" where
  "isDuplicateCandidate q m =
     ((case vendorName (learned m) of None \<Rightarrow> False
       | Some v \<Rightarrow> toLowerCase v = toLowerCase (q_vendorName q))
      \<and> invoiceNumber (learned m) = Some (q_invoiceNumber q)
      \<and> (case invoiceDate (learned m) of None \<Rightarrow> False | Some d \<Rightarrow> d \<noteq> []))"

definition duplicateReasonText :: string where
  "duplicateReasonText =
     ''Potential duplicate invoice based on vendor, invoice number and close invoice date.''"

definition recallMemories :: "MemoryRepository \<Rightarrow> RecallQuery \<Rightarrow> RecallSummary" where
  "recallMemories repo q =
     (let limit = (case q_limit q of Some l \<Rightarrow> l | None \<Rightarrow> 50);
          byVendor = searchMemories repo (q_vendorName q) limit;
          byInvoiceNumber = searchMemories repo (q_invoiceNumber q) limit;
          combined = foldl saveMemory [] (byVendor @ byInvoiceNumber);
          scored = scoreAll combined q;
          resolutions = filterByCategory scored Resolution;
          duplicateCandidates = filter (isDuplicateCandidate q) resolutions
      in \<lparr> vendorMemories = filterByCategory scored Vendor,
           correctionMemories = filterByCategory scored Correction,
           resolutionMemories = resolutions,
           duplicateDetected = (duplicateCandidates \<noteq> []),
           duplicateScore = (case duplicateCandidates of [] \<Rightarrow> 0 | best # _ \<Rightarrow> score best),
           duplicateReason =
             (case duplicateCandidates of [] \<Rightarrow> None | best # _ \<Rightarrow> Some duplicateReasonText),
           allMemories = scored \<rparr>)"

section \<open>Apply\<close>

text \<open>
  Line items are objects the invoice refers to: the invoice holds their addresses, the
  store holds the objects. The spread \<open>{ ...input.invoice }\<close> makes a new invoice object
  (a new value here) whose \<open>lineItems\<close> is the caller's array, so the addresses are shared.
\<close>

record InvoiceLineItem =
  li_id :: string
  description :: string
  quantity :: real
  unitPrice :: real
  sku :: "string option"

type_synonym ItemStore = "nat \<Rightarrow> InvoiceLineItem option"

record NormalizedInvoice =
  inv_id :: string
  externalId :: "string option"
  customerName :: string
  currency :: string
  totalAmount :: real
  issuedAt :: int
  dueAt :: "int option"
  lineItems :: "nat list"
  inv_metadata :: "(string \<times> jvalue) list option"
  inv_vendorName :: string
  inv_invoiceNumber :: string
  inv_rawText :: "string option"
  serviceDate :: "jvalue option"
  taxAmount :: "real option"
  grossAmount :: "real option"
  paymentTermsNormalized :: "string option"

record ProposedCorrection =
  pc_field :: string
  proposedValue :: jvalue
  pc_reason :: string
  pc_confidence :: real
  pc_memoryId :: "string option"
  applied :: bool

record AppliedMemoryRecord =
  am_field :: string
  am_memoryId :: string
  am_confidence :: real
  am_applied :: bool
  am_reason :: string

record ApplyInputContext =
  invoice :: NormalizedInvoice
  rawText :: string
  recall :: RecallSummary

record ApplyContext =
  input :: ApplyInputContext
  memories :: "Memory list"
  normalizedInvoice :: NormalizedInvoice
  proposedCorrections :: "ProposedCorrection list"
  appliedMemories :: "AppliedMemoryRecord list"
  aggregateConfidence :: real

definition HIGH_CONFIDENCE_THRESHOLD :: real where
  "HIGH_CONFIDENCE_THRESHOLD = 0.8"

definition MEDIUM_CONFIDENCE_THRESHOLD :: real where
  "MEDIUM_CONFIDENCE_THRESHOLD = 0.7"

definition registerCorrection ::
  "ProposedCorrection list \<Rightarrow> string \<Rightarrow> jvalue \<Rightarrow> string \<Rightarrow> real
     \<Rightarrow> ScoredLearnedMemory option \<Rightarrow> bool \<Rightarrow> ProposedCorrection list" where
  "registerCorrection list fld v why conf mem ap =
     list @ [\<lparr> pc_field = fld, proposedValue = v, pc_reason = why, pc_confidence = conf,
                pc_memoryId = map_option (\<lambda>m. m_id (memory m)) mem, applied = ap \<rparr>]"

definition metadataValue :: "ScoredLearnedMemory \<Rightarrow> string \<Rightarrow> jvalue option" where
  "metadataValue m k =
     (case metadata (learned m) of None \<Rightarrow> None | Some md \<Rightarrow> map_of md k)"

text \<open>A metadata value read under the assertion \<open>as string | undefined\<close>.\<close>

definition asString :: "jvalue option \<Rightarrow> string option" where
  "asString v = (case v of Some (JStr s) \<Rightarrow> Some s | _ \<Rightarrow> None)"

text \<open>
  \<open>(normalizedInvoice as any)[field] = proposedValue\<close>; the one key the program passes
  is \<open>serviceDate\<close>.
\<close>

definition writeField :: "string \<Rightarrow> jvalue \<Rightarrow> NormalizedInvoice \<Rightarrow> NormalizedInvoice" where
  "writeField fld v nv =
     (if fld = ''serviceDate'' then nv\<lparr> serviceDate := Some v \<rparr> else nv)"

definition maybeApplyFieldFromMemory ::
  "NormalizedInvoice \<Rightarrow> string \<Rightarrow> jvalue option \<Rightarrow> ScoredLearnedMemory list
     \<Rightarrow> ProposedCorrection list \<Rightarrow> AppliedMemoryRecord list
     \<Rightarrow> (NormalizedInvoice \<times> ProposedCorrection list \<times> AppliedMemoryRecord list)
        \<times> (jvalue option \<times> real)" where
  "maybeApplyFieldFromMemory nv fld currentValue mems pcs ams =
     (if currentValue \<noteq> None \<and> currentValue \<noteq> Some JNull then
        ((nv, pcs, ams), (currentValue, 0))
      else
        (case find (\<lambda>m. field (learned m) = Some fld) mems of
           None \<Rightarrow> ((nv, pcs, ams), (currentValue, 0))
         | Some candidate \<Rightarrow>
             (let conf = confidence (learned candidate);
                  why = ''Field '' @ fld @ '' inferred from learned vendor memory for ''
                    @ (case vendorName (learned candidate) of
                         Some v \<Rightarrow> v | None \<Rightarrow> ''unknown vendor'') @ ''.''
              in if conf \<ge> HIGH_CONFIDENCE_THRESHOLD then
                   (case metadataValue candidate ''proposedValue'' of
                      Some v \<Rightarrow>
                        ((writeField fld v nv,
                          registerCorrection pcs fld v why conf (Some candidate) True,
                          ams @ [\<lparr> am_field = fld, am_memoryId = m_id (memory candidate),
                                   am_confidence = conf, am_applied = True,
                                   am_reason = why \<rparr>]),
                         (Some v, conf))
                    | None \<Rightarrow> ((nv, pcs, ams), (currentValue, 0)))
                 else if conf \<ge> MEDIUM_CONFIDENCE_THRESHOLD then
                   (case metadataValue candidate ''proposedValue'' of
                      Some v \<Rightarrow>
                        ((nv,
                          registerCorrection pcs fld v why conf (Some candidate) False,
                          ams @ [\<lparr> am_field = fld, am_memoryId = m_id (memory candidate),
                                   am_confidence = conf, am_applied = False,
                                   am_reason = why \<rparr>]),
                         (currentValue, conf))
                    | None \<Rightarrow> ((nv, pcs, ams), (currentValue, 0)))
                 else ((nv, pcs, ams), (currentValue, 0)))))"

definition detectVatIncluded :: "string \<Rightarrow> bool" where
  "detectVatIncluded raw =
     (let text = toLowerCase raw in
        includesStr text ''mwst. inkl'' \<or> includesStr text ''mwst inkl''
        \<or> includesStr text ''inkl. mwst'' \<or> includesStr text ''inkl mwst''
        \<or> includesStr text ''prices incl. vat'' \<or> includesStr text ''price includes vat'')"

definition euroSign :: string where
  "euroSign = [CHR 0xE2, CHR 0x82, CHR 0xAC]"

definition poundSign :: string where
  "poundSign = [CHR 0xC2, CHR 0xA3]"

definition normalizeCurrencyFromText :: "string \<Rightarrow> string option" where
  "normalizeCurrencyFromText raw =
     (let text = toUpperCase raw in
        if includesStr text '' EUR'' \<or> includesStr text euroSign then Some ''EUR''
        else if includesStr text '' USD'' \<or> includesStr text ''$'' then Some ''USD''
        else if includesStr text '' CHF'' then Some ''CHF''
        else if includesStr text '' GBP'' \<or> includesStr text poundSign then Some ''GBP''
        else None)"

text \<open>The first match of \<open>/(\d{1,2})%/\<close>: its group.\<close>

fun percentMatch :: "string \<Rightarrow> string option" where
  "percentMatch [] = None"
| "percentMatch (c # cs) =
     (if isDigit c \<and> (case cs of d # p # _ \<Rightarrow> isDigit d \<and> p = CHR ''%'' | _ \<Rightarrow> False)
      then Some (c # take 1 cs)
      else if isDigit c \<and> (case cs of p # _ \<Rightarrow> p = CHR ''%'' | [] \<Rightarrow> False)
      then Some [c]
      else percentMatch cs)"

definition detectSkontoTerms :: "string \<Rightarrow> string option" where
  "detectSkontoTerms raw =
     (let text = toLowerCase raw in
        case indexOf text ''skonto'' of
          None \<Rightarrow> None
        | Some skontoIndex \<Rightarrow>
            (case percentMatch (slice text (skontoIndex - 40) (skontoIndex + 80)) of
               Some percentage \<Rightarrow> Some (percentage @ ''% skonto detected'')
             | None \<Rightarrow> Some ''Skonto terms detected''))"

text \<open>\<open>Number(x.toFixed(2))\<close>: the nearest multiple of 0.01, a tie going away from zero.\<close>

definition toFixed2 :: "real \<Rightarrow> real" where
  "toFixed2 x =
     (if x < 0 then - (of_int \<lfloor>- x * 100 + 1 / 2\<rfloor> / 100)
      else of_int \<lfloor>x * 100 + 1 / 2\<rfloor> / 100)"

definition findField :: "RecallSummary \<Rightarrow> string \<Rightarrow> ScoredLearnedMemory option" where
  "findField rc fld = find (\<lambda>m. field (learned m) = Some fld) (vendorMemories rc)"

definition memConfidence :: "ScoredLearnedMemory option \<Rightarrow> real \<Rightarrow> real" where
  "memConfidence mem dflt = (case mem of Some m \<Rightarrow> confidence (learned m) | None \<Rightarrow> dflt)"

definition memIdOr :: "ScoredLearnedMemory option \<Rightarrow> string \<Rightarrow> string" where
  "memIdOr mem dflt = (case mem of Some m \<Rightarrow> m_id (memory m) | None \<Rightarrow> dflt)"

definition vatReason :: string where
  "vatReason = ''VAT inclusion inferred from raw text phrases such as ''
     @ [CHR 0x22] @ ''MwSt. inkl.'' @ [CHR 0x22] @ '' or '' @ [CHR 0x22]
     @ ''Prices incl. VAT'' @ [CHR 0x22] @ ''.''"

definition vatStep :: "ApplyContext \<Rightarrow> ApplyContext" where
  "vatStep ctx =
     (if detectVatIncluded (rawText (input ctx)) then
        (let vatMem = findField (recall (input ctx)) ''vatIncluded'';
             baseConfidence = memConfidence vatMem 0.75;
             gross = totalAmount (normalizedInvoice ctx);
             net = gross / 1.19;
             tax = gross - net
         in if baseConfidence \<ge> HIGH_CONFIDENCE_THRESHOLD then
              ctx\<lparr> proposedCorrections := registerCorrection (proposedCorrections ctx)
                     ''taxAmount'' (JNum (toFixed2 tax)) vatReason baseConfidence vatMem True,
                   normalizedInvoice := (normalizedInvoice ctx)
                     \<lparr> taxAmount := Some (toFixed2 tax), grossAmount := Some (toFixed2 gross) \<rparr>,
                   appliedMemories := appliedMemories ctx @
                     [\<lparr> am_field = ''taxAmount'', am_memoryId = memIdOr vatMem ''synthetic-vat-rule'',
                        am_confidence = baseConfidence, am_applied = True,
                        am_reason = vatReason \<rparr>],
                   aggregateConfidence := max (aggregateConfidence ctx) baseConfidence \<rparr>
            else if baseConfidence \<ge> MEDIUM_CONFIDENCE_THRESHOLD then
              ctx\<lparr> proposedCorrections := registerCorrection (proposedCorrections ctx)
                     ''taxAmount'' (JNum (toFixed2 tax)) vatReason baseConfidence vatMem False,
                   aggregateConfidence := max (aggregateConfidence ctx) baseConfidence \<rparr>
            else ctx)
      else ctx)"

definition currencyReason :: string where
  "currencyReason = ''Currency inferred from raw text and vendor-specific memory.''"

definition currencyStep :: "ApplyContext \<Rightarrow> ApplyContext" where
  "currencyStep ctx =
     (if currency (normalizedInvoice ctx) = [] then
        (let currencyFromText = normalizeCurrencyFromText (rawText (input ctx));
             currencyMem = findField (recall (input ctx)) ''currency'';
             baseConfidence = memConfidence currencyMem 0.7;
             candidateCurrency = orElse currencyFromText
               (case currencyMem of None \<Rightarrow> None
                | Some m \<Rightarrow> asString (metadataValue m ''proposedValue''))
         in case candidateCurrency of
              None \<Rightarrow> ctx
            | Some cur \<Rightarrow>
                if cur = [] then ctx
                else if baseConfidence \<ge> HIGH_CONFIDENCE_THRESHOLD then
                  ctx\<lparr> proposedCorrections := registerCorrection (proposedCorrections ctx)
                         ''currency'' (JStr cur) currencyReason baseConfidence currencyMem True,
                       normalizedInvoice := (normalizedInvoice ctx)\<lparr> currency := cur \<rparr>,
                       appliedMemories := appliedMemories ctx @
                         (case currencyMem of None \<Rightarrow> []
                          | Some m \<Rightarrow>
                              [\<lparr> am_field = ''currency'', am_memoryId = m_id (memory m),
                                 am_confidence = baseConfidence, am_applied = True,
                                 am_reason = currencyReason \<rparr>]),
                       aggregateConfidence := max (aggregateConfidence ctx) baseConfidence \<rparr>
                else if baseConfidence \<ge> MEDIUM_CONFIDENCE_THRESHOLD then
                  ctx\<lparr> proposedCorrections := registerCorrection (proposedCorrections ctx)
                         ''currency'' (JStr cur) currencyReason baseConfidence currencyMem False,
                       aggregateConfidence := max (aggregateConfidence ctx) baseConfidence \<rparr>
                else ctx)
      else ctx)"

definition looksLikeFreight :: "string \<Rightarrow> bool" where
  "looksLikeFreight d =
     (let text = toLowerCase d in
        includesStr text ''seefracht'' \<or> includesStr text ''shipping''
        \<or> includesStr text ''fracht'' \<or> includesStr text ''freight'')"

definition freightReason :: string where
  "freightReason =
     ''Freight-related description mapped to freight SKU based on learned vendor memory.''"

text \<open>
  One round of the loop over \<open>normalizedInvoice.lineItems\<close>. \<open>(item as any).sku = ...\<close>
  writes to the object at the item's address. An address with no object cannot occur in
  the program; the round leaves everything as it is there.
\<close>

definition freightItem :: "nat \<Rightarrow> ItemStore \<times> ApplyContext \<Rightarrow> ItemStore \<times> ApplyContext" where
  "freightItem a st =
     (let (store, ctx) = st in
      case store a of
        None \<Rightarrow> st
      | Some item \<Rightarrow>
          if \<not> looksLikeFreight (description item) then st
          else
            (let freightMem = findField (recall (input ctx)) ''freightSku'';
                 baseConfidence = memConfidence freightMem 0.75;
                 proposedSku =
                   (case (case freightMem of None \<Rightarrow> None
                          | Some m \<Rightarrow> asString (metadataValue m ''proposedValue'')) of
                      Some v \<Rightarrow> v | None \<Rightarrow> ''FREIGHT'');
                 fld = ''lineItem:'' @ li_id item @ '':sku''
             in if baseConfidence \<ge> HIGH_CONFIDENCE_THRESHOLD then
                  (store(a \<mapsto> item\<lparr> sku := Some proposedSku \<rparr>),
                   ctx\<lparr> proposedCorrections := registerCorrection (proposedCorrections ctx)
                          fld (JStr proposedSku) freightReason baseConfidence freightMem True,
                        appliedMemories := appliedMemories ctx @
                          [\<lparr> am_field = fld,
                             am_memoryId = memIdOr freightMem ''synthetic-freight-rule'',
                             am_confidence = baseConfidence, am_applied = True,
                             am_reason = freightReason \<rparr>],
                        aggregateConfidence := max (aggregateConfidence ctx) baseConfidence \<rparr>)
                else if baseConfidence \<ge> MEDIUM_CONFIDENCE_THRESHOLD then
                  (store,
                   ctx\<lparr> proposedCorrections := registerCorrection (proposedCorrections ctx)
                          fld (JStr proposedSku) freightReason baseConfidence freightMem False,
                        aggregateConfidence := max (aggregateConfidence ctx) baseConfidence \<rparr>)
                else st))"

fun freightLoop :: "nat list \<Rightarrow> ItemStore \<times> ApplyContext \<Rightarrow> ItemStore \<times> ApplyContext" where
  "freightLoop [] st = st"
| "freightLoop (a # rest) st = freightLoop rest (freightItem a st)"

definition skontoReason :: string where
  "skontoReason = ''Skonto (cash discount) terms detected in raw text.''"

definition skontoStep :: "ApplyContext \<Rightarrow> ApplyContext" where
  "skontoStep ctx =
     (case detectSkontoTerms (rawText (input ctx)) of
        None \<Rightarrow> ctx
      | Some skonto \<Rightarrow>
          if skonto = [] then ctx
          else
            (let skontoMem = findField (recall (input ctx)) ''skonto'';
                 baseConfidence = memConfidence skontoMem 0.75
             in if baseConfidence \<ge> HIGH_CONFIDENCE_THRESHOLD then
                  ctx\<lparr> proposedCorrections := registerCorrection (proposedCorrections ctx)
                         ''paymentTermsNormalized'' (JStr skonto) skontoReason baseConfidence
                         skontoMem True,
                       normalizedInvoice := (normalizedInvoice ctx)
                         \<lparr> paymentTermsNormalized := Some skonto \<rparr>,
                       appliedMemories := appliedMemories ctx @
                         [\<lparr> am_field = ''paymentTermsNormalized'',
                            am_memoryId = memIdOr skontoMem ''synthetic-skonto-rule'',
                            am_confidence = baseConfidence, am_applied = True,
                            am_reason = skontoReason \<rparr>],
                       aggregateConfidence := max (aggregateConfidence ctx) baseConfidence \<rparr>
                else if baseConfidence \<ge> MEDIUM_CONFIDENCE_THRESHOLD then
                  ctx\<lparr> proposedCorrections := registerCorrection (proposedCorrections ctx)
                         ''paymentTermsNormalized'' (JStr skonto) skontoReason baseConfidence
                         skontoMem False,
                       aggregateConfidence := max (aggregateConfidence ctx) baseConfidence \<rparr>
                else ctx))"

definition serviceDateStep :: "ApplyContext \<Rightarrow> ApplyContext" where
  "serviceDateStep ctx =
     (let vendorServiceMemories =
            filter (\<lambda>m. field (learned m) = Some ''serviceDate'')
              (vendorMemories (recall (input ctx)));
          ((nv, pcs, ams), (v, delta)) =
            maybeApplyFieldFromMemory (normalizedInvoice ctx) ''serviceDate''
              (serviceDate (normalizedInvoice ctx)) vendorServiceMemories
              (proposedCorrections ctx) (appliedMemories ctx)
      in ctx\<lparr> normalizedInvoice := nv, proposedCorrections := pcs, appliedMemories := ams,
              aggregateConfidence := max (aggregateConfidence ctx) delta \<rparr>)"

text \<open>
  \<open>applyMemoriesToContext\<close>: the store of line items goes in and comes out; the context
  under construction starts from the copy of the invoice and the empty lists.
\<close>

definition applyMemoriesToContext :: "ItemStore \<Rightarrow> ApplyInputContext \<Rightarrow> ItemStore \<times> ApplyContext" where
  "applyMemoriesToContext store inp =
     (let ctx0 = \<lparr> input = inp, memories = map memory (allMemories (recall inp)),
                    normalizedInvoice = invoice inp, proposedCorrections = [],
                    appliedMemories = [], aggregateConfidence = 0 \<rparr>;
          ctx1 = currencyStep (vatStep (serviceDateStep ctx0));
          (store', ctx2) = freightLoop (lineItems (normalizedInvoice ctx1)) (store, ctx1)
      in (store', skontoStep ctx2))"

section \<open>Decide\<close>

record Decision =
  requiresHumanReview :: bool
  confidenceScore :: real
  reasoning :: string

definition highConfidenceApplied :: "ApplyContext \<Rightarrow> bool" where
  "highConfidenceApplied ctx =
     list_ex (\<lambda>m. am_applied m \<and> am_confidence m \<ge> 0.8) (appliedMemories ctx)"

definition mediumConfidenceSuggestions :: "ApplyContext \<Rightarrow> ProposedCorrection list" where
  "mediumConfidenceSuggestions ctx =
     filter (\<lambda>c. \<not> applied c \<and> pc_confidence c \<ge> 0.7 \<and> pc_confidence c < 0.8)
       (proposedCorrections ctx)"

definition decideNextAction :: "ApplyContext \<Rightarrow> Decision" where
  "decideNextAction ctx =
     (let hasDuplicate = duplicateDetected (recall (input ctx));
          high = highConfidenceApplied ctx;
          medium = mediumConfidenceSuggestions ctx;
          review0 = True;
          parts0 = [];
          (review1, parts1) =
            (if hasDuplicate then
               (True, parts0 @ [''Potential duplicate detected based on vendor, invoice number, and invoice date proximity.''])
             else (review0, parts0));
          (review2, parts2) =
            (if \<not> hasDuplicate \<and> high \<and> length medium = 0 then
               (False, parts1 @ [''High-confidence learned corrections applied without conflicting suggestions; auto-correction is allowed.''])
             else (review1, parts1));
          (review3, parts3) =
            (if length medium > 0 then
               (True, parts2 @ [''Medium-confidence suggestions present; human review recommended before applying corrections.''])
             else (review2, parts2));
          (review4, parts4) =
            (if \<not> high \<and> length medium = 0 \<and> \<not> hasDuplicate then
               (True, parts3 @ [''No sufficiently confident learned memory found; escalate to human review.''])
             else (review3, parts3))
      in \<lparr> requiresHumanReview = review4,
           confidenceScore = min (max (aggregateConfidence ctx) 0) 1,
           reasoning = joinWith '' '' parts4 \<rparr>)"

section \<open>The orchestrator\<close>

record HumanFeedbackInput =
  approvedCorrections :: "string list"
  rejectedCorrections :: "string list"

datatype MemoryAction = Reinforce | Decay | Create

record MemoryUpdate =
  mu_memoryId :: string
  previousConfidence :: real
  newConfidence :: real
  mu_usageCount :: int
  action :: MemoryAction

datatype AuditDetails =
    RecallDetails bool real nat nat nat
  | ApplyDetails "(string \<times> string \<times> real \<times> bool) list" "ProposedCorrection list"
  | DecideDetails bool real string bool
  | LearnDetails "MemoryUpdate list" "string option"

record AuditTrailEntry =
  step :: AuditEventType
  timestamp :: int
  step_details :: AuditDetails

record EngineOutputContract =
  out_normalizedInvoice :: NormalizedInvoice
  out_proposedCorrections :: "ProposedCorrection list"
  out_requiresHumanReview :: bool
  out_reasoning :: string
  out_confidenceScore :: real
  memoryUpdates :: "MemoryUpdate list"
  auditTrail :: "AuditTrailEntry list"

text \<open>
  One round of the loop over \<open>applyResult.proposedCorrections\<close>: \<open>None\<close> when the round
  pushes no entry (the \<open>continue\<close>, or \<open>learnFromSignal\<close> returning \<open>undefined\<close>);
  an error that \<open>learnFromSignal\<close> throws is not caught.
\<close>

definition feedbackStep ::
  "(nat \<Rightarrow> string) \<Rightarrow> int \<Rightarrow> NormalizedInvoice \<Rightarrow> bool \<Rightarrow> HumanFeedbackInput
     \<Rightarrow> MemoryRepository \<times> nat \<Rightarrow> ProposedCorrection
     \<Rightarrow> (MemoryRepository \<times> nat) \<times> (error + MemoryUpdate option)" where
  "feedbackStep gen now nv dup fb st correction =
     (let approved = (pc_field correction \<in> set (approvedCorrections fb));
          rejected = (pc_field correction \<in> set (rejectedCorrections fb))
      in if \<not> approved \<and> \<not> rejected then (st, Inr None)
         else
           (let (repo, n) = st;
                (eventId, n1) = uuidv4 gen n;
                (memoryId, n2) =
                  (case pc_memoryId correction of Some i \<Rightarrow> (i, n1) | None \<Rightarrow> uuidv4 gen n1);
                signal = \<lparr> event = \<lparr> ev_id = eventId, ev_type = LearnStep, ev_timestamp = now,
                     details = \<lparr> d_memoryId = Some memoryId, d_approved = Some approved,
                       d_field = Some (pc_field correction),
                       d_value = Some (proposedValue correction),
                       d_vendorName = Some (inv_vendorName nv),
                       d_invoiceNumber = Some (inv_invoiceNumber nv),
                       d_invoiceDate = Some (toISOString (issuedAt nv)),
                       d_resolutionStatus = Some (if approved then Approved else Rejected),
                       d_isDuplicate = Some dup \<rparr> \<rparr>,
                   feedbackScore = Some (if approved then 1 else - 1) \<rparr>;
                beforeMemory =
                  (case pc_memoryId correction of Some i \<Rightarrow> getMemoryById repo i | None \<Rightarrow> None);
                beforeParsed =
                  (case beforeMemory of None \<Rightarrow> None | Some b \<Rightarrow> tryProperties (content b));
                previousConfidence0 =
                  (case beforeParsed of None \<Rightarrow> 0.7
                   | Some p \<Rightarrow> (case p_confidence p of Some c \<Rightarrow> c | None \<Rightarrow> 0.7));
                previousUsage =
                  (case beforeParsed of None \<Rightarrow> 0
                   | Some p \<Rightarrow> (case p_usageCount p of Some u \<Rightarrow> u | None \<Rightarrow> 0));
                (st', updated) = learnFromSignal gen now (repo, n2) signal
            in case updated of
                 Inl e \<Rightarrow> (st', Inl e)
               | Inr None \<Rightarrow> (st', Inr None)
               | Inr (Some u) \<Rightarrow>
                   (let afterParsed = tryProperties (content u);
                        newConfidence0 =
                          (case afterParsed of None \<Rightarrow> previousConfidence0
                           | Some p \<Rightarrow>
                               (case p_confidence p of Some c \<Rightarrow> c | None \<Rightarrow> previousConfidence0));
                        newUsage =
                          (case afterParsed of None \<Rightarrow> previousUsage + 1
                           | Some p \<Rightarrow>
                               (case p_usageCount p of Some c \<Rightarrow> c | None \<Rightarrow> previousUsage + 1))
                    in (st', Inr (Some \<lparr> mu_memoryId = m_id u,
                                    previousConfidence = previousConfidence0,
                                    newConfidence = newConfidence0, mu_usageCount = newUsage,
                                    action = (if approved then Reinforce else Decay) \<rparr>)))))"

text \<open>The loop: the entries pushed, or the error of the round that threw, which ends it.\<close>

fun feedbackLoop ::
  "(nat \<Rightarrow> string) \<Rightarrow> int \<Rightarrow> NormalizedInvoice \<Rightarrow> bool \<Rightarrow> HumanFeedbackInput
     \<Rightarrow> ProposedCorrection list \<Rightarrow> MemoryRepository \<times> nat
     \<Rightarrow> (MemoryRepository \<times> nat) \<times> (error + MemoryUpdate list)" where
  "feedbackLoop gen now nv dup fb [] st = (st, Inr [])"
| "feedbackLoop gen now nv dup fb (c # cs) st =
     (let (st1, r) = feedbackStep gen now nv dup fb st c in
      case r of
        Inl e \<Rightarrow> (st1, Inl e)
      | Inr u \<Rightarrow>
          (let (st2, rest) = feedbackLoop gen now nv dup fb cs st1 in
           case rest of
             Inl e \<Rightarrow> (st2, Inl e)
           | Inr us \<Rightarrow> (st2, Inr ((case u of None \<Rightarrow> [] | Some x \<Rightarrow> [x]) @ us))))"

definition noFeedbackReason :: string where
  "noFeedbackReason = ''No human feedback supplied; no learning performed for this invoice.''"

text \<open>
  \<open>processInvoiceWithMemory\<close>: the repository with the count of identifiers, and the
  store of line items, go in and come out; the result is the output contract, or the
  error that the learning loop threw (the promise is rejected).
\<close>

definition processInvoiceWithMemory ::
  "(nat \<Rightarrow> string) \<Rightarrow> int \<Rightarrow> MemoryRepository \<times> nat \<Rightarrow> ItemStore \<Rightarrow> NormalizedInvoice
     \<Rightarrow> string \<Rightarrow> HumanFeedbackInput option
     \<Rightarrow> (MemoryRepository \<times> nat) \<times> ItemStore \<times> (error + EngineOutputContract)" where
  "processInvoiceWithMemory gen now st store nv raw humanFeedback =
     (let recallQuery = \<lparr> q_vendorName = inv_vendorName nv,
            q_invoiceNumber = inv_invoiceNumber nv, q_invoiceDate = issuedAt nv,
            q_rawText = Some raw, q_limit = None \<rparr>;
          recallResult = recallMemories (fst st) recallQuery;
          trail1 = [\<lparr> step = RecallStep, timestamp = now,
            step_details = RecallDetails (duplicateDetected recallResult)
              (duplicateScore recallResult) (length (vendorMemories recallResult))
              (length (correctionMemories recallResult))
              (length (resolutionMemories recallResult)) \<rparr>];
          (store', applyResult) = applyMemoriesToContext store
            \<lparr> invoice = nv, rawText = raw, recall = recallResult \<rparr>;
          trail2 = trail1 @ [\<lparr> step = ApplyStep, timestamp = now,
            step_details = ApplyDetails
              (map (\<lambda>m. (am_field m, am_memoryId m, am_confidence m, am_applied m))
                 (appliedMemories applyResult))
              (proposedCorrections applyResult) \<rparr>];
          decision = decideNextAction applyResult;
          trail3 = trail2 @ [\<lparr> step = DecideStep, timestamp = now,
            step_details = DecideDetails (requiresHumanReview decision)
              (confidenceScore decision) (reasoning decision)
              (duplicateDetected recallResult) \<rparr>];
          (st', learnt) =
            (case humanFeedback of
               Some fb \<Rightarrow>
                 (let (st1, r) = feedbackLoop gen now nv (duplicateDetected recallResult) fb
                        (proposedCorrections applyResult) st
                  in (st1,
                      case r of
                        Inl e \<Rightarrow> Inl e
                      | Inr us \<Rightarrow> Inr (us, trail3 @ [\<lparr> step = LearnStep, timestamp = now,
                            step_details = LearnDetails us None \<rparr>])))
             | None \<Rightarrow>
                 (st, Inr ([], trail3 @ [\<lparr> step = LearnStep, timestamp = now,
                    step_details = LearnDetails [] (Some noFeedbackReason) \<rparr>])))
      in (st', store',
          case learnt of
            Inl e \<Rightarrow> Inl e
          | Inr (updates, trail4) \<Rightarrow>
              Inr \<lparr> out_normalizedInvoice = normalizedInvoice applyResult,
                    out_proposedCorrections = proposedCorrections applyResult,
                    out_requiresHumanReview =
                      (requiresHumanReview decision \<or> duplicateDetected recallResult),
                    out_reasoning = reasoning decision,
                    out_confidenceScore = confidenceScore decision,
                    memoryUpdates = updates, auditTrail = trail4 \<rparr>))"

section \<open>Auxiliary notions and sample data\<close>

definition sampleUuid :: "nat \<Rightarrow> string" where
  "sampleUuid n = ''uuid-'' @ showNat n"

definition invoiceA :: NormalizedInvoice where
  "invoiceA = \<lparr> inv_id = ''INV-A-001'', externalId = None, customerName = ''Parts AG'',
     currency = ''EUR'', totalAmount = 119, issuedAt = 1709251200000, dueAt = None,
     lineItems = [], inv_metadata = None, inv_vendorName = ''Parts AG'',
     inv_invoiceNumber = ''PA-7781'', inv_rawText = None,
     serviceDate = Some (JDate 1709251200000), taxAmount = None, grossAmount = None,
     paymentTermsNormalized = None \<rparr>"

definition rawTextA :: string where
  "rawTextA = ''Rechnung PA-7781. Preise inkl. MwSt.''"

definition emptyRecall :: "bool \<Rightarrow> RecallSummary" where
  "emptyRecall dup = \<lparr> vendorMemories = [], correctionMemories = [], resolutionMemories = [],
     duplicateDetected = dup, duplicateScore = 0, duplicateReason = None, allMemories = [] \<rparr>"

definition appliedTax :: ProposedCorrection where
  "appliedTax = \<lparr> pc_field = ''taxAmount'', proposedValue = JNum 19, pc_reason = vatReason,
     pc_confidence = 0.85, pc_memoryId = Some ''m-1'', applied = True \<rparr>"

definition appliedTaxRecord :: AppliedMemoryRecord where
  "appliedTaxRecord = \<lparr> am_field = ''taxAmount'', am_memoryId = ''m-1'', am_confidence = 0.85,
     am_applied = True, am_reason = vatReason \<rparr>"

definition decidedContext :: "bool \<Rightarrow> ApplyContext" where
  "decidedContext dup = \<lparr> input = \<lparr> invoice = invoiceA, rawText = rawTextA,
       recall = emptyRecall dup \<rparr>,
     memories = [], normalizedInvoice = invoiceA, proposedCorrections = [appliedTax],
     appliedMemories = [appliedTaxRecord], aggregateConfidence = 0.85 \<rparr>"

text \<open>
  The confidence and the usage count that the program reads from a memory's content, with
  the defaults 0.7 and 0 it takes when the content gives none.
\<close>

definition storedConfidence :: "Memory \<Rightarrow> real" where
  "storedConfidence m =
     (case tryProperties (content m) of None \<Rightarrow> 0.7
      | Some p \<Rightarrow> (case p_confidence p of Some c \<Rightarrow> c | None \<Rightarrow> 0.7))"



definition approveSignal :: "string \<Rightarrow> LearningSignal" where
  "approveSignal i = \<lparr> event = \<lparr> ev_id = ''e-1'', ev_type = LearnStep, ev_timestamp = 0,
       details = \<lparr> d_memoryId = Some i, d_approved = Some True, d_field = Some ''taxAmount'',
         d_value = Some (JNum 19), d_vendorName = Some ''Parts AG'',
         d_invoiceNumber = Some ''PA-7781'',
         d_invoiceDate = Some ''2024-03-01T00:00:00.000Z'',
         d_resolutionStatus = Some Approved, d_isDuplicate = Some False \<rparr> \<rparr>,
     feedbackScore = None \<rparr>"

definition vatMemory :: "real \<Rightarrow> Memory" where
  "vatMemory c = \<lparr> m_id = ''m-1'', kind = Long_term,
     content = Json \<lparr> p_category = Some Vendor, p_vendorName = Some ''Parts AG'',
       p_invoiceNumber = Some ''PA-7001'', p_invoiceDate = Some ''2024-02-28T00:00:00.000Z'',
       p_field = Some ''vatIncluded'', p_pattern = None, p_resolutionStatus = None,
       p_confidence = Some c, p_usageCount = Some 1,
       p_metadata = Some [(''field'', JStr ''taxAmount''), (''value'', JNum 19)] \<rparr>,
     createdAt = 1, updatedAt = 1, source = Some ''learn'' \<rparr>"

definition rejectTax :: HumanFeedbackInput where
  "rejectTax = \<lparr> approvedCorrections = [], rejectedCorrections = [''taxAmount''] \<rparr>"

definition freightItemA :: InvoiceLineItem where
  "freightItemA = \<lparr> li_id = ''1'', description = ''Seefracht Hamburg-Rotterdam'',
     quantity = 1, unitPrice = 250, sku = None \<rparr>"

definition freightStore :: ItemStore where
  "freightStore = Map.empty(0 \<mapsto> freightItemA)"

definition freightInvoice :: NormalizedInvoice where
  "freightInvoice = invoiceA\<lparr> lineItems := [0], inv_vendorName := ''Freight & Co'',
     inv_invoiceNumber := ''FC-1002'' \<rparr>"

definition freightRawText :: string where
  "freightRawText = ''Transportrechnung FC-1002''"

definition freightMemory :: "real \<Rightarrow> Memory" where
  "freightMemory c = \<lparr> m_id = ''m-2'', kind = Long_term,
     content = Json \<lparr> p_category = Some Vendor, p_vendorName = Some ''Freight & Co'',
       p_invoiceNumber = Some ''FC-1001'', p_invoiceDate = Some ''2024-02-20T00:00:00.000Z'',
       p_field = Some ''freightSku'', p_pattern = None, p_resolutionStatus = None,
       p_confidence = Some c, p_usageCount = Some 1,
       p_metadata = Some [(''field'', JStr ''lineItem:1:sku''), (''value'', JStr ''FREIGHT''),
         (''proposedValue'', JStr ''FREIGHT'')] \<rparr>,
     createdAt = 1, updatedAt = 1, source = Some ''learn'' \<rparr>"

definition inBands :: "ProposedCorrection \<Rightarrow> bool" where
  "inBands c = ((if applied c then pc_confidence c \<ge> 0.8 else True) \<and> pc_confidence c \<ge> 0.7)"

definition queryOf :: "NormalizedInvoice \<Rightarrow> string \<Rightarrow> RecallQuery" where
  "queryOf nv raw = \<lparr> q_vendorName = inv_vendorName nv, q_invoiceNumber = inv_invoiceNumber nv,
     q_invoiceDate = issuedAt nv, q_rawText = Some raw, q_limit = None \<rparr>"

definition freightInput :: ApplyInputContext where
  "freightInput = \<lparr> invoice = freightInvoice, rawText = freightRawText,
     recall = recallMemories [freightMemory 0.85] (queryOf freightInvoice freightRawText) \<rparr>"

text \<open>The three conditions of a duplicate candidate, on a scored memory.\<close>

definition duplicateOf :: "RecallQuery \<Rightarrow> ScoredLearnedMemory \<Rightarrow> bool" where
  "duplicateOf q m =
     (category (learned m) = Resolution
      \<and> (\<exists>v. vendorName (learned m) = Some v \<and> toLowerCase v = toLowerCase (q_vendorName q))
      \<and> invoiceNumber (learned m) = Some (q_invoiceNumber q)
      \<and> (\<exists>d. invoiceDate (learned m) = Some d \<and> d \<noteq> []))"

definition resolutionMemoryA :: Memory where
  "resolutionMemoryA = \<lparr> m_id = ''r-1'', kind = Long_term,
     content = Json \<lparr> p_category = Some Resolution, p_vendorName = Some ''PARTS AG'',
       p_invoiceNumber = Some ''PA-7781'', p_invoiceDate = Some ''2024-03-01T00:00:00.000Z'',
       p_field = None, p_pattern = None, p_resolutionStatus = Some Approved,
       p_confidence = Some 0.8, p_usageCount = Some 1,
       p_metadata = Some [(''isDuplicate'', JBool False)] \<rparr>,
     createdAt = 1, updatedAt = 1, source = Some ''learn:resolution'' \<rparr>"

definition penaltySignal :: LearningSignal where
  "penaltySignal = \<lparr> event = \<lparr> ev_id = ''e-2'', ev_type = LearnStep, ev_timestamp = 0,
       details = \<lparr> d_memoryId = Some ''m-1'', d_approved = Some True,
         d_field = Some ''taxAmount'', d_value = Some (JNum 19), d_vendorName = None,
         d_invoiceNumber = None, d_invoiceDate = None, d_resolutionStatus = None,
         d_isDuplicate = None \<rparr> \<rparr>,
     feedbackScore = Some (- 20) \<rparr>"

definition namelessContent :: LearnedMemoryContent where
  "namelessContent = \<lparr> category = Vendor, vendorName = Some [], invoiceNumber = Some [],
     invoiceDate = None, field = None, pattern = None, resolutionStatus = None,
     confidence = 0.5, usageCount = 1, metadata = None \<rparr>"

definition bothTax :: HumanFeedbackInput where
  "bothTax = \<lparr> approvedCorrections = [''taxAmount''], rejectedCorrections = [''taxAmount''] \<rparr>"

definition approveTax :: HumanFeedbackInput where
  "approveTax = \<lparr> approvedCorrections = [''taxAmount''], rejectedCorrections = [] \<rparr>"

definition proposedTax :: ProposedCorrection where
  "proposedTax = \<lparr> pc_field = ''taxAmount'', proposedValue = JNum 19, pc_reason = vatReason,
     pc_confidence = 0.75, pc_memoryId = None, applied = False \<rparr>"

text \<open>\<open>q\<close> occurs in \<open>t\<close> as a run of consecutive characters.\<close>

definition occursIn :: "string \<Rightarrow> string \<Rightarrow> bool" where
  "occursIn q t = (\<exists>pre post. t = pre @ q @ post)"

text \<open>Text that \<open>JSON.stringify\<close> writes without an escape.\<close>

definition plainText :: "string \<Rightarrow> bool" where
  "plainText s = list_all (\<lambda>c. c \<noteq> CHR 0x22 \<and> c \<noteq> CHR 0x5C \<and> 32 \<le> (of_char c :: nat)) s"

text \<open>No line item of the list has a description that looks like freight.\<close>

definition noFreight :: "ItemStore \<Rightarrow> nat list \<Rightarrow> bool" where
  "noFreight store items =
     list_all (\<lambda>a. case store a of None \<Rightarrow> True
                    | Some item \<Rightarrow> \<not> looksLikeFreight (description item)) items"

definition taxCorrection :: "real \<Rightarrow> string option \<Rightarrow> bool \<Rightarrow> ProposedCorrection" where
  "taxCorrection conf mid ap = \<lparr> pc_field = ''taxAmount'', proposedValue = JNum 19,
     pc_reason = vatReason, pc_confidence = conf, pc_memoryId = mid, applied = ap \<rparr>"

definition learnedVat :: "NormalizedInvoice \<Rightarrow> string \<Rightarrow> int \<Rightarrow> Memory" where
  "learnedVat nv i now = \<lparr> m_id = i, kind = Long_term,
     content = Json \<lparr> p_category = Some Vendor, p_vendorName = Some (inv_vendorName nv),
       p_invoiceNumber = Some (inv_invoiceNumber nv),
       p_invoiceDate = Some (toISOString (issuedAt nv)),
       p_field = Some ''vatIncluded'', p_pattern = None, p_resolutionStatus = None,
       p_confidence = Some 0.8, p_usageCount = Some 1,
       p_metadata = Some [(''field'', JStr ''taxAmount''), (''value'', JNum 19)] \<rparr>,
     createdAt = now, updatedAt = now, source = Some ''learn'' \<rparr>"

definition rawTextSkonto :: string where
  "rawTextSkonto = ''Rechnung PA-7781. Preise inkl. MwSt. 2% Skonto bei Zahlung in 10 Tagen''"

definition appliedAgree :: "ApplyContext \<Rightarrow> bool" where
  "appliedAgree ctx =
     (list_ex (\<lambda>m. am_applied m \<and> am_confidence m \<ge> 0.8) (appliedMemories ctx)
      = list_ex applied (proposedCorrections ctx))"

text \<open>Two line items that differ at most in their \<open>sku\<close>, and two stores whose items do.\<close>

definition sameButSku :: "InvoiceLineItem \<Rightarrow> InvoiceLineItem \<Rightarrow> bool" where
  "sameButSku x y =
     (li_id x = li_id y \<and> description x = description y \<and> quantity x = quantity y
      \<and> unitPrice x = unitPrice y)"

definition skuOnly :: "ItemStore \<Rightarrow> ItemStore \<Rightarrow> bool" where
  "skuOnly store store' = (\<forall>a. rel_option sameButSku (store a) (store' a))"



text \<open>The search for \<open>q\<close> finds the memory: its content matches the pattern \<open>%q%\<close>.\<close>

definition mentions :: "string \<Rightarrow> Memory \<Rightarrow> bool" where
  "mentions q m = like (''%'' @ q @ ''%'') (contentText (content m))"

text \<open>
  No memory of the repository is found by the two searches of a recall for the invoice,
  the one for its vendor name and the one for its number.
\<close>

definition unknownInvoice :: "MemoryRepository \<Rightarrow> NormalizedInvoice \<Rightarrow> bool" where
  "unknownInvoice repo nv =
     list_all (\<lambda>m. \<not> mentions (inv_vendorName nv) m \<and> \<not> mentions (inv_invoiceNumber nv) m) repo"

text \<open>No memory of the repository has the JSON text \<open>null\<close> as its content.\<close>

definition noNullContent :: "MemoryRepository \<Rightarrow> bool" where
  "noNullContent repo = list_all (\<lambda>m. jsonParse (content m) \<noteq> Inr JsonNull) repo"

section \<open>Decide: the review flag\<close>

lemma decide_review_eq:
  "requiresHumanReview (decideNextAction ctx) =
     (\<not> (\<not> duplicateDetected (recall (input ctx)) \<and> highConfidenceApplied ctx
         \<and> mediumConfidenceSuggestions ctx = []))"
  by (simp add: decideNextAction_def Let_def)

section \<open>Learn: the confidence update of an existing memory\<close>

lemma getMemoryById_saveMemory:
  "getMemoryById (saveMemory repo m) i = (if m_id m = i then Some m else getMemoryById repo i)"
  by (induction repo) (auto simp add: getMemoryById_def)


lemma tryProperties_Json: "tryProperties (Json c) = Some c"
  by (simp add: tryProperties_def jsonParse_def properties_def)

lemma tryProperties_Other: "tryProperties (Other s) = None"
  by (simp add: tryProperties_def jsonParse_def properties_def)

lemma jsonParse_Json_not_null: "jsonParse (Json c) \<noteq> Inr JsonNull"
  by (simp add: jsonParse_def)

lemma updatedContent_confidence:
  "p_confidence (updatedContent parsed d approved fs) =
     Some (if approved
           then min ((case p_confidence parsed of Some c \<Rightarrow> c | None \<Rightarrow> 0.7)
                     + 0.05 * (case fs of Some x \<Rightarrow> x | None \<Rightarrow> 1)) 0.95
           else max ((case p_confidence parsed of Some c \<Rightarrow> c | None \<Rightarrow> 0.7)
                     - 0.05 * (case fs of Some x \<Rightarrow> x | None \<Rightarrow> 1)) 0)"
  by (simp add: updatedContent_def Let_def split: prod.splits)


text \<open>
  What the path of an existing memory reads from the content: the properties of the
  object, or those of \<open>{}\<close> when the text is rejected; on \<open>null\<close> it throws.
\<close>

lemma properties_of_content:
  "jsonParse t \<noteq> Inr JsonNull \<Longrightarrow>
     properties (case jsonParse t of Inr v \<Rightarrow> v | Inl e \<Rightarrow> JsonObject emptyContent) =
       Inr (case tryProperties t of Some c \<Rightarrow> c | None \<Rightarrow> emptyContent)"
  by (cases t) (auto simp add: jsonParse_def properties_def tryProperties_def split: if_splits)

lemma properties_of_null:
  "jsonParse t = Inr JsonNull \<Longrightarrow>
     properties (case jsonParse t of Inr v \<Rightarrow> v | Inl e \<Rightarrow> JsonObject emptyContent) =
       Inl TypeError"
  by (simp add: properties_def)


lemma learn_existing_null:
  assumes "getMemoryById repo i = Some existing" and "i \<noteq> []"
    and "d_memoryId (details (event signal)) = Some i"
    and "d_approved (details (event signal)) = Some approved"
    and "jsonParse (content existing) = Inr JsonNull"
  shows "learnFromSignal gen now (repo, n) signal = ((repo, n), Inl TypeError)"
  using assms(1-4)
  by (simp add: learnFromSignal_def Let_def properties_of_null [OF assms(5)])











section \<open>Learn: rejection through the orchestrator\<close>

text \<open>
  The orchestrator sends \<open>feedbackScore = -1\<close> with a rejection, and the rejection branch
  subtracts \<open>0.05 * feedbackScore\<close>: the stored confidence goes up by 0.05.
\<close>

lemma rejection_with_negative_score:
  "p_confidence (updatedContent parsed d False (Some (- 1))) =
     Some (max ((case p_confidence parsed of Some c \<Rightarrow> c | None \<Rightarrow> 0.7) + 0.05) 0)"
  by (simp add: updatedContent_confidence)

text \<open>
  C2 (the code at a failing input). A vendor memory for \<open>vatIncluded\<close> is stored with
  confidence 0.75; the invoice is processed and the proposed \<open>taxAmount\<close> correction is
  rejected. The run returns its output, the memory update is reported as a decay from
  0.75 to 0.8, and the stored confidence is 0.8 afterwards: the rejection raised it.
\<close>

theorem rejection_raises_confidence:
  "(case snd (snd (processInvoiceWithMemory sampleUuid 9 ([vatMemory 0.75], 0)
        Map.empty invoiceA rawTextA (Some rejectTax))) of
      Inl e \<Rightarrow> False
    | Inr out \<Rightarrow>
        map (\<lambda>u. (mu_memoryId u, previousConfidence u, newConfidence u, action u))
          (memoryUpdates out) = [(''m-1'', 0.75, 0.8, Decay)])
   \<and> map_option storedConfidence (getMemoryById (fst (fst (processInvoiceWithMemory sampleUuid 9
        ([vatMemory 0.75], 0) Map.empty invoiceA rawTextA (Some rejectTax)))) ''m-1'') = Some 0.8"
  by code_simp

section \<open>Learn: the resolution memory\<close>

text \<open>
  On the path of an existing memory (its content not the text \<open>null\<close>) a signal with a
  \<open>resolutionStatus\<close>, or with \<open>isDuplicate\<close> true, stores a second memory under a
  fresh identifier: category
  \<open>resolution\<close>, confidence 0.8 or 0.5, \<open>usageCount\<close> 1, \<open>metadata.isDuplicate\<close> a boolean.
\<close>

lemma update_path_resolution:
  assumes "getMemoryById repo i = Some existing" and "i \<noteq> []"
    and "d_memoryId (details (event signal)) = Some i"
    and "d_approved (details (event signal)) = Some approved"
    and "d_resolutionStatus (details (event signal)) \<noteq> None
         \<or> d_isDuplicate (details (event signal)) = Some True"
    and "jsonParse (content existing) \<noteq> Inr JsonNull"
  shows "\<exists>r c. getMemoryById (fst (fst (learnFromSignal gen now (repo, n) signal))) (gen n) = Some r
           \<and> content r = Json c \<and> source r = Some ''learn:resolution''
           \<and> p_category c = Some Resolution
           \<and> p_confidence c = Some (if approved then 0.8 else 0.5)
           \<and> p_usageCount c = Some 1
           \<and> p_metadata c = Some [(''isDuplicate'',
                  JBool (d_isDuplicate (details (event signal)) = Some True))]
           \<and> snd (fst (learnFromSignal gen now (repo, n) signal)) = Suc n"
  using assms(1-5)
  by (auto simp add: learnFromSignal_def Let_def uuidv4_def getMemoryById_saveMemory
      resolutionContent_def properties_of_content [OF assms(6)] split: prod.splits)

text \<open>
  C5 (the code at a failing input). With no memory stored under the signal's id,
  \<open>learnFromSignal\<close> returns right after saving the new memory: a signal that carries
  \<open>resolutionStatus = approved\<close> leaves one memory in the repository, of category
  \<open>vendor\<close>, and draws no identifier. No resolution memory is stored.
\<close>

theorem create_path_no_resolution:
  "map (\<lambda>m. (m_id m, map_option p_category (tryProperties (content m))))
     (fst (fst (learnFromSignal sampleUuid 7 ([], 0) (approveSignal ''m-1''))))
   = [(''m-1'', Some (Some Vendor))]
   \<and> snd (fst (learnFromSignal sampleUuid 7 ([], 0) (approveSignal ''m-1''))) = 0
   \<and> d_resolutionStatus (details (event (approveSignal ''m-1''))) = Some Approved"
  by code_simp

theorem create_path_no_resolution_witness:
  "map m_id (fst (fst (learnFromSignal sampleUuid 7 ([], 0) (approveSignal ''m-1'')))) = [''m-1'']"
proof -
  from create_path_no_resolution
  have "map (\<lambda>m. (m_id m, map_option p_category (tryProperties (content m))))
          (fst (fst (learnFromSignal sampleUuid 7 ([], 0) (approveSignal ''m-1''))))
        = [(''m-1'', Some (Some Vendor))]"
    by blast
  then have "map fst (map (\<lambda>m. (m_id m, map_option p_category (tryProperties (content m))))
          (fst (fst (learnFromSignal sampleUuid 7 ([], 0) (approveSignal ''m-1'')))))
        = map fst [(''m-1'', Some (Some Vendor))]"
    by (simp only:)
  then show ?thesis by (simp add: comp_def)
qed

section \<open>Apply: the caller's line items\<close>

text \<open>
  C3 (the code at a failing input). The caller's invoice has one line item, at address 0,
  with a freight description and no SKU; the repository holds a vendor memory for
  \<open>freightSku\<close> with confidence 0.85. After \<open>processInvoiceWithMemory\<close> the object at
  address 0, which the caller's invoice still refers to, has \<open>sku = FREIGHT\<close>: the
  freight heuristic wrote through the shared line item.
\<close>

theorem apply_writes_callers_line_item:
  "lineItems freightInvoice = [0]
   \<and> map_option sku (freightStore 0) = Some None
   \<and> map_option sku (fst (snd (processInvoiceWithMemory sampleUuid 9 ([freightMemory 0.85], 0)
         freightStore freightInvoice freightRawText None)) 0) = Some (Some ''FREIGHT'')"
  by code_simp

section \<open>Apply: the confidence bands\<close>

lemma registerCorrection_bands:
  "list_all inBands (registerCorrection pcs f v w conf mem ap) =
     (list_all inBands pcs \<and> (if ap then conf \<ge> 0.8 else True) \<and> conf \<ge> 0.7)"
  by (auto simp add: registerCorrection_def inBands_def)

lemma maybeApply_bands:
  "list_all inBands pcs \<Longrightarrow>
   list_all inBands (fst (snd (fst (maybeApplyFieldFromMemory nv f cur mems pcs ams))))"
  by (auto simp add: maybeApplyFieldFromMemory_def Let_def registerCorrection_bands
      HIGH_CONFIDENCE_THRESHOLD_def MEDIUM_CONFIDENCE_THRESHOLD_def split: option.splits)

lemma serviceDateStep_bands:
  "list_all inBands (proposedCorrections ctx) \<Longrightarrow>
   list_all inBands (proposedCorrections (serviceDateStep ctx))"
  using maybeApply_bands [of "proposedCorrections ctx"]
  by (simp add: serviceDateStep_def Let_def split: prod.splits) (metis fst_conv snd_conv)

lemma vatStep_bands:
  "list_all inBands (proposedCorrections ctx) \<Longrightarrow>
   list_all inBands (proposedCorrections (vatStep ctx))"
  by (simp add: vatStep_def Let_def registerCorrection_bands
      HIGH_CONFIDENCE_THRESHOLD_def MEDIUM_CONFIDENCE_THRESHOLD_def)

lemma currencyStep_bands:
  "list_all inBands (proposedCorrections ctx) \<Longrightarrow>
   list_all inBands (proposedCorrections (currencyStep ctx))"
  by (simp add: currencyStep_def Let_def registerCorrection_bands
      HIGH_CONFIDENCE_THRESHOLD_def MEDIUM_CONFIDENCE_THRESHOLD_def split: option.splits)

lemma skontoStep_bands:
  "list_all inBands (proposedCorrections ctx) \<Longrightarrow>
   list_all inBands (proposedCorrections (skontoStep ctx))"
  by (simp add: skontoStep_def Let_def registerCorrection_bands
      HIGH_CONFIDENCE_THRESHOLD_def MEDIUM_CONFIDENCE_THRESHOLD_def split: option.splits)

lemma freightItem_bands:
  "list_all inBands (proposedCorrections (snd st)) \<Longrightarrow>
   list_all inBands (proposedCorrections (snd (freightItem a st)))"
  by (cases st) (simp add: freightItem_def Let_def registerCorrection_bands
      HIGH_CONFIDENCE_THRESHOLD_def MEDIUM_CONFIDENCE_THRESHOLD_def split: option.splits)

lemma freightLoop_bands:
  "list_all inBands (proposedCorrections (snd st)) \<Longrightarrow>
   list_all inBands (proposedCorrections (snd (freightLoop as st)))"
  by (induction as arbitrary: st) (simp_all add: freightItem_bands)

lemma apply_bands:
  "list_all inBands (proposedCorrections (snd (applyMemoriesToContext store inp)))"
proof -
  let ?ctx0 = "\<lparr> input = inp, memories = map memory (allMemories (recall inp)),
                    normalizedInvoice = invoice inp, proposedCorrections = [],
                    appliedMemories = [], aggregateConfidence = 0 \<rparr>"
  let ?ctx1 = "currencyStep (vatStep (serviceDateStep ?ctx0))"
  have "list_all inBands (proposedCorrections ?ctx1)"
    by (intro currencyStep_bands vatStep_bands serviceDateStep_bands) simp
  then have "list_all inBands (proposedCorrections
      (snd (freightLoop (lineItems (normalizedInvoice ?ctx1)) (store, ?ctx1))))"
    by (intro freightLoop_bands) simp
  then show ?thesis
    by (simp add: applyMemoriesToContext_def Let_def skontoStep_bands split: prod.splits)
       (metis skontoStep_bands snd_conv)
qed

text \<open>
  C9. Every correction \<open>applyMemoriesToContext\<close> emits with \<open>applied = true\<close> has
  confidence at least 0.8, and every correction it emits, applied or only proposed, has
  confidence at least 0.7: no heuristic emits a correction below 0.7.
\<close>

theorem apply_confidence_bands:
  "\<forall>c \<in> set (proposedCorrections (snd (applyMemoriesToContext store inp))).
     (applied c \<longrightarrow> pc_confidence c \<ge> 0.8) \<and> pc_confidence c \<ge> 0.7"
  using apply_bands [of store inp] by (auto simp add: list_all_iff inBands_def split: if_splits)

lemma freightInput_corrections:
  "map (\<lambda>c. (pc_field c, applied c))
     (proposedCorrections (snd (applyMemoriesToContext freightStore freightInput)))
   = [(''lineItem:1:sku'', True)]"
  by code_simp

theorem apply_confidence_bands_witness:
  "\<exists>c. c \<in> set (proposedCorrections (snd (applyMemoriesToContext freightStore freightInput)))
       \<and> applied c \<and> pc_confidence c \<ge> 0.8 \<and> pc_confidence c \<ge> 0.7"
proof -
  from freightInput_corrections
  obtain c where c: "proposedCorrections (snd (applyMemoriesToContext freightStore freightInput)) = [c]"
    and a: "applied c"
    by auto
  from c have m: "c \<in> set (proposedCorrections (snd (applyMemoriesToContext freightStore freightInput)))"
    by simp
  from apply_confidence_bands [of freightStore freightInput] m a
  have "pc_confidence c \<ge> 0.8 \<and> pc_confidence c \<ge> 0.7" by blast
  with m a show ?thesis by blast
qed

section \<open>Decide: review and the corrections of an apply result\<close>

lemma serviceDateStep_agree: "appliedAgree ctx \<Longrightarrow> appliedAgree (serviceDateStep ctx)"
  by (auto simp add: appliedAgree_def serviceDateStep_def maybeApplyFieldFromMemory_def Let_def
      registerCorrection_def HIGH_CONFIDENCE_THRESHOLD_def MEDIUM_CONFIDENCE_THRESHOLD_def
      split: option.splits)

lemma vatStep_agree: "appliedAgree ctx \<Longrightarrow> appliedAgree (vatStep ctx)"
  by (auto simp add: appliedAgree_def vatStep_def Let_def registerCorrection_def
      HIGH_CONFIDENCE_THRESHOLD_def MEDIUM_CONFIDENCE_THRESHOLD_def)

lemma currencyStep_agree: "appliedAgree ctx \<Longrightarrow> appliedAgree (currencyStep ctx)"
  by (auto simp add: appliedAgree_def currencyStep_def Let_def registerCorrection_def
      memConfidence_def HIGH_CONFIDENCE_THRESHOLD_def MEDIUM_CONFIDENCE_THRESHOLD_def
      split: option.splits)

lemma skontoStep_agree: "appliedAgree ctx \<Longrightarrow> appliedAgree (skontoStep ctx)"
  by (auto simp add: appliedAgree_def skontoStep_def Let_def registerCorrection_def
      HIGH_CONFIDENCE_THRESHOLD_def MEDIUM_CONFIDENCE_THRESHOLD_def split: option.splits)

lemma freightItem_agree: "appliedAgree (snd st) \<Longrightarrow> appliedAgree (snd (freightItem a st))"
  by (cases st) (auto simp add: appliedAgree_def freightItem_def Let_def registerCorrection_def
      HIGH_CONFIDENCE_THRESHOLD_def MEDIUM_CONFIDENCE_THRESHOLD_def split: option.splits)

lemma freightLoop_agree: "appliedAgree (snd st) \<Longrightarrow> appliedAgree (snd (freightLoop items st))"
  by (induction items arbitrary: st) (simp_all add: freightItem_agree)

lemma apply_snd:
  "snd (applyMemoriesToContext store inp) =
     skontoStep (snd (freightLoop
       (lineItems (normalizedInvoice (currencyStep (vatStep (serviceDateStep
          \<lparr> input = inp, memories = map memory (allMemories (recall inp)),
            normalizedInvoice = invoice inp, proposedCorrections = [],
            appliedMemories = [], aggregateConfidence = 0 \<rparr>)))))
       (store, currencyStep (vatStep (serviceDateStep
          \<lparr> input = inp, memories = map memory (allMemories (recall inp)),
            normalizedInvoice = invoice inp, proposedCorrections = [],
            appliedMemories = [], aggregateConfidence = 0 \<rparr>)))))"
  by (simp add: applyMemoriesToContext_def Let_def split_beta)

lemma apply_agree: "appliedAgree (snd (applyMemoriesToContext store inp))"
proof -
  let ?ctx0 = "\<lparr> input = inp, memories = map memory (allMemories (recall inp)),
                    normalizedInvoice = invoice inp, proposedCorrections = [],
                    appliedMemories = [], aggregateConfidence = 0 \<rparr>"
  let ?ctx1 = "currencyStep (vatStep (serviceDateStep ?ctx0))"
  have "appliedAgree ?ctx0" by (simp add: appliedAgree_def)
  then have "appliedAgree ?ctx1"
    by (intro currencyStep_agree vatStep_agree serviceDateStep_agree)
  then have "appliedAgree (snd (freightLoop (lineItems (normalizedInvoice ?ctx1)) (store, ?ctx1)))"
    by (intro freightLoop_agree) simp
  then have "appliedAgree (skontoStep
      (snd (freightLoop (lineItems (normalizedInvoice ?ctx1)) (store, ?ctx1))))"
    by (rule skontoStep_agree)
  then show ?thesis unfolding apply_snd .
qed

lemma step_inputs:
  "input (serviceDateStep ctx) = input ctx" "input (vatStep ctx) = input ctx"
  "input (currencyStep ctx) = input ctx" "input (skontoStep ctx) = input ctx"
  "input (snd (freightItem a st)) = input (snd st)"
  by (simp_all add: serviceDateStep_def vatStep_def currencyStep_def skontoStep_def
      freightItem_def Let_def split: prod.splits option.splits)

lemma freightLoop_input: "input (snd (freightLoop items st)) = input (snd st)"
  by (induction items arbitrary: st) (simp_all add: step_inputs)

lemma apply_input: "input (snd (applyMemoriesToContext store inp)) = inp"
  unfolding apply_snd by (simp add: step_inputs freightLoop_input)

text \<open>
  C1. \<open>decideNextAction\<close> returns \<open>requiresHumanReview = false\<close> exactly when no duplicate
  was detected during recall, some applied memory record has confidence at least 0.8, and
  no proposed correction that is not applied has its confidence in [0.7, 0.8); a detected
  duplicate forces \<open>requiresHumanReview = true\<close>. For the context
  \<open>applyMemoriesToContext\<close> returns, an applied memory record of confidence at least 0.8
  exists exactly when an applied correction of confidence at least 0.8 does, so the same
  holds with the applied corrections in place of the records.
\<close>

theorem decide_no_review_iff:
  "(requiresHumanReview (decideNextAction ctx) = False \<longleftrightarrow>
      (\<not> duplicateDetected (recall (input ctx))
       \<and> (\<exists>m \<in> set (appliedMemories ctx). am_applied m \<and> am_confidence m \<ge> 0.8)
       \<and> (\<forall>c \<in> set (proposedCorrections ctx).
             \<not> (\<not> applied c \<and> 0.7 \<le> pc_confidence c \<and> pc_confidence c < 0.8))))
   \<and> (duplicateDetected (recall (input ctx)) \<longrightarrow>
        requiresHumanReview (decideNextAction ctx) = True)
   \<and> (requiresHumanReview (decideNextAction (snd (applyMemoriesToContext store inp))) = False
        \<longleftrightarrow>
      (\<not> duplicateDetected (recall inp)
       \<and> (\<exists>c \<in> set (proposedCorrections (snd (applyMemoriesToContext store inp))).
             applied c \<and> pc_confidence c \<ge> 0.8)
       \<and> (\<forall>c \<in> set (proposedCorrections (snd (applyMemoriesToContext store inp))).
             \<not> (\<not> applied c \<and> 0.7 \<le> pc_confidence c \<and> pc_confidence c < 0.8))))"
proof -
  have general: "\<And>ctx. requiresHumanReview (decideNextAction ctx) = False \<longleftrightarrow>
      (\<not> duplicateDetected (recall (input ctx))
       \<and> (\<exists>m \<in> set (appliedMemories ctx). am_applied m \<and> am_confidence m \<ge> 0.8)
       \<and> (\<forall>c \<in> set (proposedCorrections ctx).
             \<not> (\<not> applied c \<and> 0.7 \<le> pc_confidence c \<and> pc_confidence c < 0.8)))"
    by (auto simp add: decide_review_eq highConfidenceApplied_def
        mediumConfidenceSuggestions_def list_ex_iff filter_empty_conv)
  have dup: "duplicateDetected (recall (input ctx)) \<longrightarrow>
        requiresHumanReview (decideNextAction ctx) = True"
    by (simp add: decide_review_eq)
  let ?r = "snd (applyMemoriesToContext store inp)"
  have "(\<exists>m \<in> set (appliedMemories ?r). am_applied m \<and> am_confidence m \<ge> 0.8)
      = (\<exists>c \<in> set (proposedCorrections ?r). applied c)"
    using apply_agree [of store inp] by (simp add: appliedAgree_def list_ex_iff)
  also have "\<dots> = (\<exists>c \<in> set (proposedCorrections ?r). applied c \<and> pc_confidence c \<ge> 0.8)"
    using apply_bands [of store inp]
    by (auto simp add: list_all_iff inBands_def split: if_splits)
  finally have e: "(\<exists>m \<in> set (appliedMemories ?r). am_applied m \<and> am_confidence m \<ge> 0.8)
      = (\<exists>c \<in> set (proposedCorrections ?r). applied c \<and> pc_confidence c \<ge> 0.8)" .
  have applied: "requiresHumanReview (decideNextAction ?r) = False \<longleftrightarrow>
      (\<not> duplicateDetected (recall inp)
       \<and> (\<exists>c \<in> set (proposedCorrections ?r). applied c \<and> pc_confidence c \<ge> 0.8)
       \<and> (\<forall>c \<in> set (proposedCorrections ?r).
             \<not> (\<not> applied c \<and> 0.7 \<le> pc_confidence c \<and> pc_confidence c < 0.8)))"
    unfolding general [of ?r] e apply_input ..
  from general [of ctx] dup applied show ?thesis by blast
qed

lemma freightInput_decided:
  "map (\<lambda>c. (applied c, pc_confidence c))
     (proposedCorrections (snd (applyMemoriesToContext freightStore freightInput)))
   = [(True, 0.85)]
   \<and> duplicateDetected (recall freightInput) = False"
  by code_simp

theorem decide_no_review_iff_witness:
  "requiresHumanReview (decideNextAction (decidedContext False)) = False
   \<and> requiresHumanReview (decideNextAction (decidedContext True)) = True
   \<and> requiresHumanReview (decideNextAction (snd (applyMemoriesToContext freightStore freightInput)))
       = False"
proof -
  have a: "\<not> duplicateDetected (recall (input (decidedContext False)))"
    by (simp add: decidedContext_def emptyRecall_def)
  have b: "\<exists>m \<in> set (appliedMemories (decidedContext False)).
             am_applied m \<and> am_confidence m \<ge> 0.8"
    by (simp add: decidedContext_def appliedTaxRecord_def)
  have c: "\<forall>c \<in> set (proposedCorrections (decidedContext False)).
             \<not> (\<not> applied c \<and> 0.7 \<le> pc_confidence c \<and> pc_confidence c < 0.8)"
    by (simp add: decidedContext_def appliedTax_def)
  have d: "duplicateDetected (recall (input (decidedContext True)))"
    by (simp add: decidedContext_def emptyRecall_def)
  let ?r = "snd (applyMemoriesToContext freightStore freightInput)"
  from freightInput_decided obtain x where x: "proposedCorrections ?r = [x]"
    and xa: "applied x" and xc: "pc_confidence x = 0.85"
    and nd: "\<not> duplicateDetected (recall freightInput)"
    by auto
  from x xa xc have e: "\<exists>c \<in> set (proposedCorrections ?r). applied c \<and> pc_confidence c \<ge> 0.8"
    by simp
  from x xa have f: "\<forall>c \<in> set (proposedCorrections ?r).
      \<not> (\<not> applied c \<and> 0.7 \<le> pc_confidence c \<and> pc_confidence c < 0.8)"
    by simp
  from a b c decide_no_review_iff [of "decidedContext False" freightStore freightInput]
  have "requiresHumanReview (decideNextAction (decidedContext False)) = False"
    by blast
  moreover from d decide_no_review_iff [of "decidedContext True" freightStore freightInput]
  have "requiresHumanReview (decideNextAction (decidedContext True)) = True"
    by blast
  moreover from nd e f decide_no_review_iff [of "decidedContext False" freightStore freightInput]
  have "requiresHumanReview (decideNextAction ?r) = False"
    by blast
  ultimately show ?thesis by simp
qed

section \<open>Recall: duplicate detection\<close>

lemma sort_key_head_max:
  assumes "sort_key (\<lambda>m. - score m) xs = y # ys"
  shows "score y = Max (score ` set xs)"
proof -
  have "sorted (map (\<lambda>m. - score m) (y # ys))"
    using sorted_sort_key [of "\<lambda>m. - score m" xs] assms by simp
  then have le: "\<forall>z \<in> set (y # ys). score z \<le> score y"
    by auto
  have s: "set (y # ys) = set xs"
    using set_sort [of "\<lambda>m. - score m" xs] assms by simp
  have "Max (score ` set xs) = score y"
  proof (rule Max_eqI)
    show "finite (score ` set xs)" by simp
    show "\<And>v. v \<in> score ` set xs \<Longrightarrow> v \<le> score y" using le s by auto
    show "score y \<in> score ` set xs" using s by auto
  qed
  then show ?thesis by simp
qed

lemma duplicateCandidates_eq:
  "filter (isDuplicateCandidate q) (filterByCategory scored Resolution) =
     sort_key (\<lambda>m. - score m) (filter (duplicateOf q) scored)"
proof -
  have "(\<lambda>m. category (learned m) = Resolution \<and> isDuplicateCandidate q m) = duplicateOf q"
    by (auto simp add: fun_eq_iff isDuplicateCandidate_def duplicateOf_def split: option.splits)
  then show ?thesis
    by (simp add: filterByCategory_def filter_sort conj_commute)
qed

lemma recall_duplicate_fields:
  "duplicateDetected (recallMemories repo q) =
     (sort_key (\<lambda>m. - score m) (filter (duplicateOf q) (allMemories (recallMemories repo q))) \<noteq> [])
   \<and> duplicateScore (recallMemories repo q) =
     (case sort_key (\<lambda>m. - score m) (filter (duplicateOf q) (allMemories (recallMemories repo q))) of
        [] \<Rightarrow> 0 | best # _ \<Rightarrow> score best)
   \<and> duplicateReason (recallMemories repo q) =
     (case sort_key (\<lambda>m. - score m) (filter (duplicateOf q) (allMemories (recallMemories repo q))) of
        [] \<Rightarrow> None | best # _ \<Rightarrow> Some duplicateReasonText)"
  by (simp add: recallMemories_def Let_def duplicateCandidates_eq)

text \<open>
  C7. \<open>recallMemories\<close> sets \<open>duplicateDetected\<close> exactly when some scored memory of
  category \<open>resolution\<close> has a vendor name equal to the query's without regard to case,
  an invoice number equal to the query's, and a stored invoice date that is not empty.
  Then \<open>duplicateScore\<close> is the highest score among those memories and
  \<open>duplicateReason\<close> is the fixed text; otherwise the flag is false, the score 0 and the
  reason absent.
\<close>

theorem duplicate_detection:
  "(duplicateDetected (recallMemories repo q) \<longleftrightarrow>
      (\<exists>m \<in> set (allMemories (recallMemories repo q)). duplicateOf q m))
   \<and> ((\<exists>m \<in> set (allMemories (recallMemories repo q)). duplicateOf q m) \<longrightarrow>
        duplicateScore (recallMemories repo q) =
          Max (score ` {m \<in> set (allMemories (recallMemories repo q)). duplicateOf q m})
        \<and> duplicateReason (recallMemories repo q) = Some duplicateReasonText)
   \<and> (\<not> (\<exists>m \<in> set (allMemories (recallMemories repo q)). duplicateOf q m) \<longrightarrow>
        \<not> duplicateDetected (recallMemories repo q)
        \<and> duplicateScore (recallMemories repo q) = 0
        \<and> duplicateReason (recallMemories repo q) = None)"
proof -
  let ?all = "allMemories (recallMemories repo q)"
  let ?dc = "sort_key (\<lambda>m. - score m) (filter (duplicateOf q) ?all)"
  have nonempty: "?dc \<noteq> [] \<longleftrightarrow> (\<exists>m \<in> set ?all. duplicateOf q m)"
  proof -
    have s: "set ?dc = {m \<in> set ?all. duplicateOf q m}" by simp
    have "(?dc = []) = (set ?dc = {})" by (simp only: set_empty)
    with s show ?thesis by auto
  qed
  have best: "(case ?dc of [] \<Rightarrow> 0 | best # _ \<Rightarrow> score best)
        = Max (score ` {m \<in> set ?all. duplicateOf q m})
      \<and> (case ?dc of [] \<Rightarrow> None | best # _ \<Rightarrow> Some duplicateReasonText) = Some duplicateReasonText"
    if "?dc \<noteq> []"
  proof -
    from that obtain y ys where y: "?dc = y # ys" by (cases ?dc) auto
    from sort_key_head_max [OF y]
    have "score y = Max (score ` {m \<in> set ?all. duplicateOf q m})" by simp
    with y show ?thesis by simp
  qed
  from recall_duplicate_fields [of repo q]
  have f1: "duplicateDetected (recallMemories repo q) = (?dc \<noteq> [])"
    and f2: "duplicateScore (recallMemories repo q) =
      (case ?dc of [] \<Rightarrow> 0 | best # _ \<Rightarrow> score best)"
    and f3: "duplicateReason (recallMemories repo q) =
      (case ?dc of [] \<Rightarrow> None | best # _ \<Rightarrow> Some duplicateReasonText)"
    by blast+
  show ?thesis
  proof (intro conjI impI)
    show "duplicateDetected (recallMemories repo q) \<longleftrightarrow>
        (\<exists>m \<in> set ?all. duplicateOf q m)"
      unfolding f1 by (rule nonempty)
  next
    assume "\<exists>m \<in> set ?all. duplicateOf q m"
    with nonempty have ne: "?dc \<noteq> []" by blast
    from best [OF ne] show "duplicateScore (recallMemories repo q) =
        Max (score ` {m \<in> set ?all. duplicateOf q m})"
      unfolding f2 by blast
    from best [OF ne] show "duplicateReason (recallMemories repo q) = Some duplicateReasonText"
      unfolding f3 by blast
  next
    assume "\<not> (\<exists>m \<in> set ?all. duplicateOf q m)"
    with nonempty have e: "?dc = []" by blast
    show "\<not> duplicateDetected (recallMemories repo q)" unfolding f1 using e by blast
    show "duplicateScore (recallMemories repo q) = 0" unfolding f2 e by simp
    show "duplicateReason (recallMemories repo q) = None" unfolding f3 e by simp
  qed
qed


lemma resolution_recalled:
  "map (\<lambda>m. (category (learned m), vendorName (learned m), invoiceNumber (learned m),
              invoiceDate (learned m), score m))
     (allMemories (recallMemories [resolutionMemoryA] (queryOf invoiceA rawTextA)))
   = [(Resolution, Some ''PARTS AG'', Some ''PA-7781'', Some ''2024-03-01T00:00:00.000Z'', 0.95)]"
  by code_simp

lemma vat_recalled:
  "map (\<lambda>m. category (learned m))
     (allMemories (recallMemories [vatMemory 0.75] (queryOf invoiceA rawTextA))) = [Vendor]"
  by code_simp

lemma lower_parts: "toLowerCase ''PARTS AG'' = toLowerCase ''Parts AG''"
  by code_simp

theorem duplicate_detection_witness:
  "duplicateDetected (recallMemories [resolutionMemoryA] (queryOf invoiceA rawTextA))
   \<and> duplicateScore (recallMemories [resolutionMemoryA] (queryOf invoiceA rawTextA)) = 0.95
   \<and> duplicateReason (recallMemories [resolutionMemoryA] (queryOf invoiceA rawTextA))
       = Some duplicateReasonText
   \<and> \<not> duplicateDetected (recallMemories [vatMemory 0.75] (queryOf invoiceA rawTextA))
   \<and> duplicateScore (recallMemories [vatMemory 0.75] (queryOf invoiceA rawTextA)) = 0"
proof -
  let ?q = "queryOf invoiceA rawTextA"
  let ?all = "allMemories (recallMemories [resolutionMemoryA] ?q)"
  from resolution_recalled obtain m where m: "?all = [m]"
    and f: "category (learned m) = Resolution" "vendorName (learned m) = Some ''PARTS AG''"
      "invoiceNumber (learned m) = Some ''PA-7781''"
      "invoiceDate (learned m) = Some ''2024-03-01T00:00:00.000Z''" "score m = 0.95"
    by auto
  have d: "duplicateOf ?q m"
    using f lower_parts by (simp add: duplicateOf_def queryOf_def invoiceA_def)
  with m have ex: "\<exists>x \<in> set ?all. duplicateOf ?q x" by simp
  from m d have "{x \<in> set ?all. duplicateOf ?q x} = {m}" by auto
  then have mx: "Max (score ` {x \<in> set ?all. duplicateOf ?q x}) = 0.95"
    using f(5) by simp
  let ?all2 = "allMemories (recallMemories [vatMemory 0.75] ?q)"
  from vat_recalled obtain v where v: "?all2 = [v]" and c: "category (learned v) = Vendor"
    by auto
  then have nex: "\<not> (\<exists>x \<in> set ?all2. duplicateOf ?q x)"
    by (simp add: duplicateOf_def)
  from duplicate_detection [of "[resolutionMemoryA]" ?q] ex mx
    duplicate_detection [of "[vatMemory 0.75]" ?q] nex
  show ?thesis by (simp only:) simp
qed

section \<open>Recall: the score\<close>

lemma scoreMemory_formula:
  "scoreMemory c v n d =
     min (confidence c + (if vendorBonus c v then 0.05 else 0)
          + (if numberBonus c n then 0.05 else 0) + (if dateBonus c d then 0.05 else 0)) 1"
  by (simp add: scoreMemory_def Let_def)

lemma vendorBonus_iff:
  "vendorBonus c v \<longleftrightarrow>
     (\<exists>s. vendorName c = Some s \<and> s \<noteq> [] \<and> toLowerCase s = toLowerCase v)"
  by (simp add: vendorBonus_def split: option.splits)

lemma numberBonus_iff:
  "numberBonus c n \<longleftrightarrow> (invoiceNumber c = Some n \<and> n \<noteq> [])"
  by (auto simp add: numberBonus_def split: option.splits)

lemma dateParse_empty: "dateParse [] = None"
  by (simp add: dateParse_def)

lemma within_two_days:
  "(real_of_int \<bar>a\<bar> / real_of_int msPerDay \<le> 2) = (\<bar>a\<bar> \<le> 2 * msPerDay)"
proof -
  have "(real_of_int \<bar>a\<bar> / 86400000 \<le> 2) = (real_of_int \<bar>a\<bar> \<le> real_of_int 172800000)"
    by (simp add: field_simps)
  also have "\<dots> = (\<bar>a\<bar> \<le> 172800000)"
    by (simp only: of_int_le_iff)
  finally show ?thesis by (simp add: msPerDay_def)
qed

lemma dateBonus_iff:
  "dateBonus c d \<longleftrightarrow>
     (\<exists>s t. invoiceDate c = Some s \<and> dateParse s = Some t \<and> \<bar>t - d\<bar> \<le> 2 * msPerDay)"
  unfolding dateBonus_def within_two_days
  by (auto simp add: dateParse_empty split: option.splits)

lemma scoreAll_member:
  "m \<in> set (scoreAll ms q) \<Longrightarrow>
     memory m \<in> set ms \<and> parseLearnedContent (memory m) = Some (learned m)
     \<and> score m = scoreMemory (learned m) (q_vendorName q) (q_invoiceNumber q) (q_invoiceDate q)"
  by (auto simp add: scoreAll_def split: option.splits)

lemma parse_confidence:
  "parseLearnedContent mem = Some c \<Longrightarrow> storedConfidence mem = confidence c"
  by (auto simp add: parseLearnedContent_def storedConfidence_def split: option.splits)

lemma recall_all_scored:
  "allMemories (recallMemories repo q) =
     scoreAll (foldl saveMemory []
       (searchMemories repo (q_vendorName q) (case q_limit q of Some l \<Rightarrow> l | None \<Rightarrow> 50)
        @ searchMemories repo (q_invoiceNumber q) (case q_limit q of Some l \<Rightarrow> l | None \<Rightarrow> 50))) q"
  by (simp add: recallMemories_def Let_def)

lemma recall_lists_subset:
  "set (vendorMemories (recallMemories repo q)) \<subseteq> set (allMemories (recallMemories repo q))
   \<and> set (correctionMemories (recallMemories repo q)) \<subseteq> set (allMemories (recallMemories repo q))
   \<and> set (resolutionMemories (recallMemories repo q)) \<subseteq> set (allMemories (recallMemories repo q))"
  by (auto simp add: recallMemories_def Let_def filterByCategory_def)

text \<open>
  C8, as amended. For every scored memory of the recall summary (the full list and the
  three category lists) the learned content is what the memory's stored content parses
  to, and the score is the stored confidence, plus 0.05 when the stored vendor name is
  not empty and equals the query's without regard to case, plus 0.05 when the stored
  invoice number equals the query's and is not empty, plus 0.05 when the stored invoice
  date parses and lies within 2 days of the query's date, capped at 1. So every score is
  at most 1; it is at least 0 whenever the stored confidence is: there is no lower clamp.
\<close>

theorem recall_score:
  "\<forall>m \<in> set (allMemories (recallMemories repo q))
        \<union> set (vendorMemories (recallMemories repo q))
        \<union> set (correctionMemories (recallMemories repo q))
        \<union> set (resolutionMemories (recallMemories repo q)).
     parseLearnedContent (memory m) = Some (learned m)
     \<and> storedConfidence (memory m) = confidence (learned m)
     \<and> score m =
         min (confidence (learned m)
              + (if \<exists>s. vendorName (learned m) = Some s \<and> s \<noteq> []
                      \<and> toLowerCase s = toLowerCase (q_vendorName q) then 0.05 else 0)
              + (if invoiceNumber (learned m) = Some (q_invoiceNumber q)
                      \<and> q_invoiceNumber q \<noteq> [] then 0.05 else 0)
              + (if \<exists>s t. invoiceDate (learned m) = Some s \<and> dateParse s = Some t
                      \<and> \<bar>t - q_invoiceDate q\<bar> \<le> 2 * msPerDay then 0.05 else 0)) 1
     \<and> score m \<le> 1
     \<and> (0 \<le> confidence (learned m) \<longrightarrow> 0 \<le> score m)"
proof
  fix m
  assume "m \<in> set (allMemories (recallMemories repo q))
        \<union> set (vendorMemories (recallMemories repo q))
        \<union> set (correctionMemories (recallMemories repo q))
        \<union> set (resolutionMemories (recallMemories repo q))"
  with recall_lists_subset [of repo q]
  have "m \<in> set (allMemories (recallMemories repo q))" by blast
  then have sm: "parseLearnedContent (memory m) = Some (learned m)"
    "score m = scoreMemory (learned m) (q_vendorName q) (q_invoiceNumber q) (q_invoiceDate q)"
    unfolding recall_all_scored by (auto dest: scoreAll_member)
  have f: "score m =
         min (confidence (learned m)
              + (if \<exists>s. vendorName (learned m) = Some s \<and> s \<noteq> []
                      \<and> toLowerCase s = toLowerCase (q_vendorName q) then 0.05 else 0)
              + (if invoiceNumber (learned m) = Some (q_invoiceNumber q)
                      \<and> q_invoiceNumber q \<noteq> [] then 0.05 else 0)
              + (if \<exists>s t. invoiceDate (learned m) = Some s \<and> dateParse s = Some t
                      \<and> \<bar>t - q_invoiceDate q\<bar> \<le> 2 * msPerDay then 0.05 else 0)) 1"
    unfolding sm(2) scoreMemory_formula vendorBonus_iff numberBonus_iff dateBonus_iff ..
  have u: "score m \<le> 1" unfolding f by (rule min.cobounded2)
  have l: "0 \<le> confidence (learned m) \<longrightarrow> 0 \<le> score m"
    unfolding f by (auto simp add: min_def)
  from sm(1) parse_confidence [OF sm(1)] f u l
  show "parseLearnedContent (memory m) = Some (learned m)
     \<and> storedConfidence (memory m) = confidence (learned m)
     \<and> score m =
         min (confidence (learned m)
              + (if \<exists>s. vendorName (learned m) = Some s \<and> s \<noteq> []
                      \<and> toLowerCase s = toLowerCase (q_vendorName q) then 0.05 else 0)
              + (if invoiceNumber (learned m) = Some (q_invoiceNumber q)
                      \<and> q_invoiceNumber q \<noteq> [] then 0.05 else 0)
              + (if \<exists>s t. invoiceDate (learned m) = Some s \<and> dateParse s = Some t
                      \<and> \<bar>t - q_invoiceDate q\<bar> \<le> 2 * msPerDay then 0.05 else 0)) 1
     \<and> score m \<le> 1
     \<and> (0 \<le> confidence (learned m) \<longrightarrow> 0 \<le> score m)"
    by blast
qed

lemma resolution_scored:
  "map (\<lambda>m. (confidence (learned m), score m))
     (allMemories (recallMemories [resolutionMemoryA] (queryOf invoiceA rawTextA)))
   = [(0.8, 0.95)]"
  by code_simp

theorem recall_score_witness:
  "\<exists>m. m \<in> set (allMemories (recallMemories [resolutionMemoryA] (queryOf invoiceA rawTextA)))
       \<and> storedConfidence (memory m) = 0.8 \<and> score m = 0.95
       \<and> 0 \<le> score m \<and> score m \<le> 1"
proof -
  let ?r = "recallMemories [resolutionMemoryA] (queryOf invoiceA rawTextA)"
  from resolution_scored obtain m where m: "allMemories ?r = [m]"
    and c: "confidence (learned m) = 0.8" and s: "score m = 0.95"
    by auto
  from m have mem: "m \<in> set (allMemories ?r) \<union> set (vendorMemories ?r)
      \<union> set (correctionMemories ?r) \<union> set (resolutionMemories ?r)"
    by simp
  from c have nonneg: "0 \<le> confidence (learned m)" by simp
  from recall_score [of "[resolutionMemoryA]" "queryOf invoiceA rawTextA"] mem nonneg
  have "storedConfidence (memory m) = confidence (learned m) \<and> score m \<le> 1 \<and> 0 \<le> score m"
    by blast
  with m c s show ?thesis by auto
qed

text \<open>
  The claim as stated fails. A memory whose confidence an approval with a negative
  feedback score took to -0.25 is recalled with the score -0.15, below 0. And a stored
  vendor name that is empty earns no bonus against a query vendor that is empty too,
  although the two are equal.
\<close>

theorem recall_score_counterexample:
  "map (\<lambda>m. (m_id (memory m), confidence (learned m), score m))
     (allMemories (recallMemories
        (fst (fst (learnFromSignal sampleUuid 7 ([vatMemory 0.75], 0) penaltySignal)))
        (queryOf invoiceA rawTextA)))
   = [(''m-1'', - 0.25, - 0.15)]
   \<and> vendorName namelessContent = Some []
   \<and> toLowerCase [] = toLowerCase []
   \<and> scoreMemory namelessContent [] ''PA-7781'' 0 = 0.5
   \<and> confidence namelessContent = 0.5"
  by code_simp

section \<open>The orchestrator: when a run returns\<close>

text \<open>
  The one error of a run is the \<open>TypeError\<close> of \<open>learnFromSignal\<close> on a memory whose
  content is the text \<open>null\<close>. The program itself stores JSON texts of objects only, so a
  repository with no such content keeps none, and every run on it returns its output.
\<close>

text \<open>The output of a run that returns one, in terms of the steps.\<close>

lemma process_output:
  assumes "snd (snd (processInvoiceWithMemory gen now st store nv raw hf)) = Inr out"
  shows "out_proposedCorrections out =
     proposedCorrections (snd (applyMemoriesToContext store
       \<lparr> invoice = nv, rawText = raw, recall = recallMemories (fst st) (queryOf nv raw) \<rparr>))"
    and "out_normalizedInvoice out =
     normalizedInvoice (snd (applyMemoriesToContext store
       \<lparr> invoice = nv, rawText = raw, recall = recallMemories (fst st) (queryOf nv raw) \<rparr>))"
    and "out_requiresHumanReview out =
     (requiresHumanReview (decideNextAction (snd (applyMemoriesToContext store
       \<lparr> invoice = nv, rawText = raw, recall = recallMemories (fst st) (queryOf nv raw) \<rparr>)))
      \<or> duplicateDetected (recallMemories (fst st) (queryOf nv raw)))"
    and "(case hf of None \<Rightarrow> Inr []
          | Some fb \<Rightarrow> snd (feedbackLoop gen now nv
              (duplicateDetected (recallMemories (fst st) (queryOf nv raw))) fb
              (out_proposedCorrections out) st)) = Inr (memoryUpdates out)"
  using assms
  by (auto simp add: processInvoiceWithMemory_def Let_def queryOf_def
      split: prod.splits option.splits sum.splits)

lemma process_state:
  "fst (snd (processInvoiceWithMemory gen now st store nv raw hf)) =
     fst (applyMemoriesToContext store
       \<lparr> invoice = nv, rawText = raw, recall = recallMemories (fst st) (queryOf nv raw) \<rparr>)"
  "fst (processInvoiceWithMemory gen now st store nv raw None) = st"
  "fst (processInvoiceWithMemory gen now st store nv raw (Some fb)) =
     fst (feedbackLoop gen now nv (duplicateDetected (recallMemories (fst st) (queryOf nv raw))) fb
       (proposedCorrections (snd (applyMemoriesToContext store
          \<lparr> invoice = nv, rawText = raw, recall = recallMemories (fst st) (queryOf nv raw) \<rparr>)))
       st)"
  by (simp_all add: processInvoiceWithMemory_def Let_def queryOf_def split: prod.splits)

text \<open>
  A run returns its output unless the learning loop threw; without feedback there is no
  loop.
\<close>

lemma process_returns:
  "\<exists>out. snd (snd (processInvoiceWithMemory gen now st store nv raw None)) = Inr out
         \<and> memoryUpdates out = []"
  "snd (feedbackLoop gen now nv (duplicateDetected (recallMemories (fst st) (queryOf nv raw))) fb
       (proposedCorrections (snd (applyMemoriesToContext store
          \<lparr> invoice = nv, rawText = raw, recall = recallMemories (fst st) (queryOf nv raw) \<rparr>)))
       st) = Inr us \<Longrightarrow>
   \<exists>out. snd (snd (processInvoiceWithMemory gen now st store nv raw (Some fb))) = Inr out
         \<and> memoryUpdates out = us"
  by (auto simp add: processInvoiceWithMemory_def Let_def queryOf_def split: prod.splits)

lemma saveMemory_set: "set (saveMemory repo m) \<subseteq> insert m (set repo)"
  by (induction repo) auto

lemma noNullContent_save:
  "noNullContent repo \<Longrightarrow> jsonParse (content m) \<noteq> Inr JsonNull \<Longrightarrow>
     noNullContent (saveMemory repo m)"
  using saveMemory_set [of repo m] by (auto simp add: noNullContent_def list_all_iff)

lemma getMemoryById_member: "getMemoryById repo i = Some m \<Longrightarrow> m \<in> set repo"
  by (induction repo) (auto simp add: getMemoryById_def split: if_splits)

lemma learn_returns:
  assumes "noNullContent repo"
  shows "\<exists>r. snd (learnFromSignal gen now (repo, n) signal) = Inr r
           \<and> noNullContent (fst (fst (learnFromSignal gen now (repo, n) signal)))"
proof (cases "\<exists>i approved existing. d_memoryId (details (event signal)) = Some i \<and> i \<noteq> []
    \<and> d_approved (details (event signal)) = Some approved \<and> getMemoryById repo i = Some existing")
  case True
  then obtain i approved existing where h: "d_memoryId (details (event signal)) = Some i" "i \<noteq> []"
      "d_approved (details (event signal)) = Some approved" "getMemoryById repo i = Some existing"
    by blast
  from getMemoryById_member [OF h(4)] assms
  have nn: "jsonParse (content existing) \<noteq> Inr JsonNull"
    by (simp add: noNullContent_def list_all_iff)
  show ?thesis
    using h assms
    by (auto simp add: learnFromSignal_def Let_def uuidv4_def properties_of_content [OF nn]
        jsonParse_Json_not_null intro!: noNullContent_save split: prod.splits)
next
  case False
  with assms show ?thesis
    by (auto simp add: learnFromSignal_def Let_def jsonParse_Json_not_null
        intro!: noNullContent_save split: prod.splits option.splits)
qed

lemma feedbackStep_returns:
  assumes "noNullContent (fst st)"
  shows "\<exists>r. snd (feedbackStep gen now nv dup fb st c) = Inr r
           \<and> noNullContent (fst (fst (feedbackStep gen now nv dup fb st c)))"
proof (cases "pc_field c \<in> set (approvedCorrections fb) \<or> pc_field c \<in> set (rejectedCorrections fb)")
  case False
  with assms show ?thesis by (simp add: feedbackStep_def Let_def)
next
  case True
  obtain repo n where st: "st = (repo, n)" by (cases st)
  with assms have nn: "noNullContent repo" by simp
  show ?thesis
  proof (cases "pc_memoryId c")
    case None
    let ?sig = "\<lparr> event = \<lparr> ev_id = gen n, ev_type = LearnStep, ev_timestamp = now,
                     details = \<lparr> d_memoryId = Some (gen (Suc n)),
                       d_approved = Some (pc_field c \<in> set (approvedCorrections fb)),
                       d_field = Some (pc_field c),
                       d_value = Some (proposedValue c),
                       d_vendorName = Some (inv_vendorName nv),
                       d_invoiceNumber = Some (inv_invoiceNumber nv),
                       d_invoiceDate = Some (toISOString (issuedAt nv)),
                       d_resolutionStatus = Some (if pc_field c \<in> set (approvedCorrections fb)
                         then Approved else Rejected),
                       d_isDuplicate = Some dup \<rparr> \<rparr>,
                   feedbackScore = Some (if pc_field c \<in> set (approvedCorrections fb)
                     then 1 else - 1) \<rparr>"
    from learn_returns [OF nn, of gen now "Suc (Suc n)" ?sig]
    obtain r where r: "snd (learnFromSignal gen now (repo, Suc (Suc n)) ?sig) = Inr r"
      "noNullContent (fst (fst (learnFromSignal gen now (repo, Suc (Suc n)) ?sig)))"
      by blast
    show ?thesis
      using True None st r
      by (auto simp add: feedbackStep_def Let_def uuidv4_def split: prod.splits option.splits)
  next
    case (Some i)
    let ?sig = "\<lparr> event = \<lparr> ev_id = gen n, ev_type = LearnStep, ev_timestamp = now,
                     details = \<lparr> d_memoryId = Some i,
                       d_approved = Some (pc_field c \<in> set (approvedCorrections fb)),
                       d_field = Some (pc_field c),
                       d_value = Some (proposedValue c),
                       d_vendorName = Some (inv_vendorName nv),
                       d_invoiceNumber = Some (inv_invoiceNumber nv),
                       d_invoiceDate = Some (toISOString (issuedAt nv)),
                       d_resolutionStatus = Some (if pc_field c \<in> set (approvedCorrections fb)
                         then Approved else Rejected),
                       d_isDuplicate = Some dup \<rparr> \<rparr>,
                   feedbackScore = Some (if pc_field c \<in> set (approvedCorrections fb)
                     then 1 else - 1) \<rparr>"
    from learn_returns [OF nn, of gen now "Suc n" ?sig]
    obtain r where r: "snd (learnFromSignal gen now (repo, Suc n) ?sig) = Inr r"
      "noNullContent (fst (fst (learnFromSignal gen now (repo, Suc n) ?sig)))"
      by blast
    show ?thesis
      using True Some st r
      by (auto simp add: feedbackStep_def Let_def uuidv4_def split: prod.splits option.splits)
  qed
qed

lemma feedbackLoop_returns:
  "noNullContent (fst st) \<Longrightarrow>
     \<exists>us. snd (feedbackLoop gen now nv dup fb cs st) = Inr us
       \<and> noNullContent (fst (fst (feedbackLoop gen now nv dup fb cs st)))"
proof (induction cs arbitrary: st)
  case Nil
  then show ?case by simp
next
  case (Cons c cs)
  from feedbackStep_returns [OF Cons.prems, of gen now nv dup fb c]
  obtain r where r: "snd (feedbackStep gen now nv dup fb st c) = Inr r"
    and nn: "noNullContent (fst (fst (feedbackStep gen now nv dup fb st c)))"
    by blast
  obtain st1 where st1: "feedbackStep gen now nv dup fb st c = (st1, Inr r)"
    using r by (cases "feedbackStep gen now nv dup fb st c") simp
  with nn have "noNullContent (fst st1)" by simp
  from Cons.IH [OF this]
  obtain us where us: "snd (feedbackLoop gen now nv dup fb cs st1) = Inr us"
    and nn2: "noNullContent (fst (fst (feedbackLoop gen now nv dup fb cs st1)))"
    by blast
  obtain st2 where st2: "feedbackLoop gen now nv dup fb cs st1 = (st2, Inr us)"
    using us by (cases "feedbackLoop gen now nv dup fb cs st1") simp
  from st1 st2 nn2 show ?case by simp
qed

lemma process_with_feedback_returns:
  assumes "noNullContent (fst st)"
  shows "\<exists>out. snd (snd (processInvoiceWithMemory gen now st store nv raw (Some fb))) = Inr out"
    and "noNullContent (fst (fst (processInvoiceWithMemory gen now st store nv raw (Some fb))))"
proof -
  let ?rc = "recallMemories (fst st) (queryOf nv raw)"
  let ?pcs = "proposedCorrections (snd (applyMemoriesToContext store
          \<lparr> invoice = nv, rawText = raw, recall = ?rc \<rparr>))"
  from feedbackLoop_returns [OF assms, of gen now nv "duplicateDetected ?rc" fb ?pcs]
  obtain us where us: "snd (feedbackLoop gen now nv (duplicateDetected ?rc) fb ?pcs st) = Inr us"
    and nn: "noNullContent (fst (fst (feedbackLoop gen now nv (duplicateDetected ?rc) fb ?pcs st)))"
    by blast
  from process_returns(2) [OF us]
  show "\<exists>out. snd (snd (processInvoiceWithMemory gen now st store nv raw (Some fb))) = Inr out"
    by blast
  from nn show "noNullContent (fst (fst (processInvoiceWithMemory gen now st store nv raw (Some fb))))"
    by (simp only: process_state(3))
qed

section \<open>The orchestrator: the action of a memory update\<close>

lemma feedbackStep_action:
  assumes "feedbackStep gen now nv dup fb st c = (st', Inr (Some u))"
  shows "(action u = Reinforce \<longleftrightarrow> pc_field c \<in> set (approvedCorrections fb))
       \<and> (action u = Decay \<longleftrightarrow> pc_field c \<notin> set (approvedCorrections fb)
             \<and> pc_field c \<in> set (rejectedCorrections fb))
       \<and> action u \<noteq> Create"
  using assms
  by (auto simp add: feedbackStep_def Let_def
      split: prod.splits option.splits if_splits sum.splits)

lemma feedbackLoop_member:
  "snd (feedbackLoop gen now nv dup fb cs st) = Inr us \<Longrightarrow> u \<in> set us \<Longrightarrow>
     \<exists>c \<in> set cs. \<exists>s s'. feedbackStep gen now nv dup fb s c = (s', Inr (Some u))"
proof (induction cs arbitrary: st us)
  case Nil
  then show ?case by simp
next
  case (Cons c cs)
  obtain st1 r where step: "feedbackStep gen now nv dup fb st c = (st1, r)"
    by (cases "feedbackStep gen now nv dup fb st c")
  obtain st2 rest where rest: "feedbackLoop gen now nv dup fb cs st1 = (st2, rest)"
    by (cases "feedbackLoop gen now nv dup fb cs st1")
  from Cons.prems(1) step rest
  obtain x us' where r: "r = Inr x" and rs: "rest = Inr us'"
    and us: "us = (case x of None \<Rightarrow> [] | Some y \<Rightarrow> [y]) @ us'"
    by (auto split: sum.splits)
  from Cons.prems(2) us
  have "u \<in> set (case x of None \<Rightarrow> [] | Some y \<Rightarrow> [y]) \<or> u \<in> set us'"
    by simp
  then show ?case
  proof
    assume "u \<in> set (case x of None \<Rightarrow> [] | Some y \<Rightarrow> [y])"
    then have "x = Some u" by (cases x) auto
    with step r have "feedbackStep gen now nv dup fb st c = (st1, Inr (Some u))" by simp
    then have "\<exists>s s'. feedbackStep gen now nv dup fb s c = (s', Inr (Some u))" by blast
    then show ?thesis by simp
  next
    assume m: "u \<in> set us'"
    from rest rs have "snd (feedbackLoop gen now nv dup fb cs st1) = Inr us'" by simp
    from Cons.IH [OF this m] show ?thesis by (meson list.set_intros(2))
  qed
qed

lemma feedbackStep_new_memory:
  assumes "pc_memoryId c = None"
    and "pc_field c \<in> set (approvedCorrections fb) \<or> pc_field c \<in> set (rejectedCorrections fb)"
    and "gen (Suc n) \<noteq> []" and "getMemoryById repo (gen (Suc n)) = None"
  shows "\<exists>st' u. feedbackStep gen now nv dup fb (repo, n) c = (st', Inr (Some u))
           \<and> mu_memoryId u = gen (Suc n)
           \<and> getMemoryById (fst st') (gen (Suc n)) \<noteq> None
           \<and> action u = (if pc_field c \<in> set (approvedCorrections fb) then Reinforce else Decay)"
  using assms
  by (auto simp add: feedbackStep_def Let_def uuidv4_def learnFromSignal_def
      getMemoryById_saveMemory split: prod.splits)

text \<open>
  C10, as amended. In the output of a run with feedback, every \<open>memoryUpdates\<close> entry
  comes from one proposed correction and has the action \<open>reinforce\<close> exactly when that
  correction's field is in \<open>approvedCorrections\<close>, and \<open>decay\<close> exactly when the field
  is in \<open>rejectedCorrections\<close> and not in \<open>approvedCorrections\<close>: approval wins for a
  field listed in both. The action \<open>create\<close> is never emitted, and a run without
  feedback returns an output that has no entries. A correction with no \<open>memoryId\<close>, for
  which a fresh identifier is drawn and a new memory is stored, still yields
  \<open>reinforce\<close> or \<open>decay\<close>. A run with feedback returns its output whenever no
  memory of the repository has the text \<open>null\<close> as its content.
\<close>

theorem memory_update_action:
  "(\<forall>out. snd (snd (processInvoiceWithMemory gen now st store nv raw (Some fb))) = Inr out \<longrightarrow>
      (\<forall>u \<in> set (memoryUpdates out).
         \<exists>c \<in> set (out_proposedCorrections out).
           (\<exists>s s' dup. feedbackStep gen now nv dup fb s c = (s', Inr (Some u)))
           \<and> (action u = Reinforce \<longleftrightarrow> pc_field c \<in> set (approvedCorrections fb))
           \<and> (action u = Decay \<longleftrightarrow> pc_field c \<notin> set (approvedCorrections fb)
                 \<and> pc_field c \<in> set (rejectedCorrections fb))
           \<and> action u \<noteq> Create))
   \<and> (\<exists>out. snd (snd (processInvoiceWithMemory gen now st store nv raw None)) = Inr out
          \<and> memoryUpdates out = [])
   \<and> (pc_memoryId c = None
        \<and> (pc_field c \<in> set (approvedCorrections fb) \<or> pc_field c \<in> set (rejectedCorrections fb))
        \<and> gen (Suc n) \<noteq> [] \<and> getMemoryById repo (gen (Suc n)) = None \<longrightarrow>
        (\<exists>st' u. feedbackStep gen now nv dup fb (repo, n) c = (st', Inr (Some u))
           \<and> mu_memoryId u = gen (Suc n)
           \<and> getMemoryById (fst st') (gen (Suc n)) \<noteq> None
           \<and> action u \<noteq> Create
           \<and> action u = (if pc_field c \<in> set (approvedCorrections fb) then Reinforce else Decay)))
   \<and> (noNullContent (fst st) \<longrightarrow>
        (\<exists>out. snd (snd (processInvoiceWithMemory gen now st store nv raw (Some fb))) = Inr out))"
proof (intro conjI allI ballI impI)
  fix out u
  assume out: "snd (snd (processInvoiceWithMemory gen now st store nv raw (Some fb))) = Inr out"
    and u: "u \<in> set (memoryUpdates out)"
  from process_output(4) [OF out]
  have "snd (feedbackLoop gen now nv
          (duplicateDetected (recallMemories (fst st) (queryOf nv raw))) fb
          (out_proposedCorrections out) st) = Inr (memoryUpdates out)"
    by simp
  from feedbackLoop_member [OF this u]
  obtain c s s' where c: "c \<in> set (out_proposedCorrections out)"
    and step: "feedbackStep gen now nv
        (duplicateDetected (recallMemories (fst st) (queryOf nv raw))) fb s c = (s', Inr (Some u))"
    by blast
  from feedbackStep_action [OF step] c step
  show "\<exists>c \<in> set (out_proposedCorrections out).
           (\<exists>s s' dup. feedbackStep gen now nv dup fb s c = (s', Inr (Some u)))
           \<and> (action u = Reinforce \<longleftrightarrow> pc_field c \<in> set (approvedCorrections fb))
           \<and> (action u = Decay \<longleftrightarrow> pc_field c \<notin> set (approvedCorrections fb)
                 \<and> pc_field c \<in> set (rejectedCorrections fb))
           \<and> action u \<noteq> Create"
    by blast
next
  show "\<exists>out. snd (snd (processInvoiceWithMemory gen now st store nv raw None)) = Inr out
          \<and> memoryUpdates out = []"
    by (rule process_returns(1))
next
  assume a: "pc_memoryId c = None
        \<and> (pc_field c \<in> set (approvedCorrections fb) \<or> pc_field c \<in> set (rejectedCorrections fb))
        \<and> gen (Suc n) \<noteq> [] \<and> getMemoryById repo (gen (Suc n)) = None"
  then have "\<exists>st' u. feedbackStep gen now nv dup fb (repo, n) c = (st', Inr (Some u))
           \<and> mu_memoryId u = gen (Suc n)
           \<and> getMemoryById (fst st') (gen (Suc n)) \<noteq> None
           \<and> action u = (if pc_field c \<in> set (approvedCorrections fb) then Reinforce else Decay)"
    by (intro feedbackStep_new_memory) auto
  then show "\<exists>st' u. feedbackStep gen now nv dup fb (repo, n) c = (st', Inr (Some u))
           \<and> mu_memoryId u = gen (Suc n)
           \<and> getMemoryById (fst st') (gen (Suc n)) \<noteq> None
           \<and> action u \<noteq> Create
           \<and> action u = (if pc_field c \<in> set (approvedCorrections fb) then Reinforce else Decay)"
    by auto
next
  assume "noNullContent (fst st)"
  then show "\<exists>out. snd (snd (processInvoiceWithMemory gen now st store nv raw (Some fb))) = Inr out"
    by (rule process_with_feedback_returns(1))
qed

lemma approve_run_updates:
  "case snd (snd (processInvoiceWithMemory sampleUuid 9 ([], 0)
        Map.empty invoiceA rawTextA (Some approveTax))) of
     Inl e \<Rightarrow> False
   | Inr out \<Rightarrow> map (\<lambda>u. (mu_memoryId u, action u)) (memoryUpdates out) = [(''uuid-1'', Reinforce)]"
  by code_simp

theorem memory_update_action_witness:
  "(\<exists>out u. snd (snd (processInvoiceWithMemory sampleUuid 9 ([], 0)
             Map.empty invoiceA rawTextA (Some approveTax))) = Inr out
        \<and> memoryUpdates out = [u]
        \<and> action u = Reinforce \<and> action u \<noteq> Create
        \<and> (\<exists>c \<in> set (out_proposedCorrections out).
              pc_field c \<in> set (approvedCorrections approveTax)))
   \<and> (\<exists>st' u. feedbackStep sampleUuid 9 invoiceA False approveTax ([], 0) proposedTax
                 = (st', Inr (Some u))
        \<and> mu_memoryId u = sampleUuid (Suc 0) \<and> action u = Reinforce)"
proof -
  from approve_run_updates obtain out u
    where out: "snd (snd (processInvoiceWithMemory sampleUuid 9 ([], 0)
             Map.empty invoiceA rawTextA (Some approveTax))) = Inr out"
      and u: "memoryUpdates out = [u]" and a: "action u = Reinforce"
    by (auto split: sum.splits)
  from u have m: "u \<in> set (memoryUpdates out)" by simp
  have h: "pc_memoryId proposedTax = None
      \<and> (pc_field proposedTax \<in> set (approvedCorrections approveTax)
          \<or> pc_field proposedTax \<in> set (rejectedCorrections approveTax))
      \<and> sampleUuid (Suc 0) \<noteq> [] \<and> getMemoryById [] (sampleUuid (Suc 0)) = None"
    by (simp add: proposedTax_def approveTax_def sampleUuid_def getMemoryById_def)
  have ap: "pc_field proposedTax \<in> set (approvedCorrections approveTax)"
    by (simp add: proposedTax_def approveTax_def)
  note inst = memory_update_action [of sampleUuid 9 "([], 0)" Map.empty invoiceA rawTextA
      approveTax proposedTax 0 "[]" False]
  from inst out m a
  have first: "action u \<noteq> Create
      \<and> (\<exists>c \<in> set (out_proposedCorrections out).
            pc_field c \<in> set (approvedCorrections approveTax))"
    by blast
  from inst h ap
  have second: "\<exists>st' u. feedbackStep sampleUuid 9 invoiceA False approveTax ([], 0) proposedTax
        = (st', Inr (Some u))
      \<and> mu_memoryId u = sampleUuid (Suc 0) \<and> action u = Reinforce"
    by (simp only: if_True) blast
  from out u a first second show ?thesis by blast
qed

text \<open>
  The claim as stated fails for a field listed as approved and as rejected: the
  \<open>taxAmount\<close> correction is rejected, and its entry has the action \<open>reinforce\<close>.
\<close>

theorem memory_update_action_counterexample:
  "(case snd (snd (processInvoiceWithMemory sampleUuid 9 ([], 0)
       Map.empty invoiceA rawTextA (Some bothTax))) of
      Inl e \<Rightarrow> False
    | Inr out \<Rightarrow> map action (memoryUpdates out) = [Reinforce]
        \<and> map pc_field (out_proposedCorrections out) = [''taxAmount''])
   \<and> ''taxAmount'' \<in> set (rejectedCorrections bothTax)"
  by code_simp

section \<open>End to end: learning that totals include VAT\<close>

lemma like_percent_skip: "like r (drop k t) \<Longrightarrow> like (CHR ''%'' # r) t"
proof (induction k arbitrary: t)
  case 0
  then show ?case by (cases t; cases r) auto
next
  case (Suc k)
  show ?case
  proof (cases t)
    case Nil
    with Suc.prems show ?thesis by (cases r) auto
  next
    case (Cons c cs)
    with Suc.prems have "like r (drop k cs)" by simp
    from Suc.IH [OF this] Cons show ?thesis by simp
  qed
qed

lemma like_prefix: "like (q @ ''%'') (q @ post)"
proof (induction q)
  case Nil
  have "like [] (drop (length post) post)" by simp
  from like_percent_skip [OF this] show ?case by simp
next
  case (Cons p ps)
  show ?case
  proof (cases "p = CHR ''%''")
    case True
    have "like (ps @ ''%'') (drop 1 (p # ps @ post))" using Cons.IH by simp
    from like_percent_skip [OF this] True show ?thesis by simp
  next
    case False
    with Cons.IH show ?thesis by simp
  qed
qed

lemma like_contains: "like (CHR ''%'' # q @ ''%'') (pre @ q @ post)"
proof -
  have "like (q @ ''%'') (drop (length pre) (pre @ q @ post))"
    by (simp add: like_prefix)
  from like_percent_skip [OF this] show ?thesis by simp
qed

lemma like_occursIn: "occursIn q t \<Longrightarrow> like (''%'' @ q @ ''%'') t"
  by (auto simp add: occursIn_def like_contains)

lemma occursIn_append_left: "occursIn q t \<Longrightarrow> occursIn q (t @ u)"
proof -
  assume "occursIn q t"
  then obtain pre post where "t = pre @ q @ post" unfolding occursIn_def by blast
  then have "t @ u = pre @ q @ (post @ u)" by simp
  then show ?thesis unfolding occursIn_def by blast
qed

lemma occursIn_append_right: "occursIn q u \<Longrightarrow> occursIn q (t @ u)"
proof -
  assume "occursIn q u"
  then obtain pre post where "u = pre @ q @ post" unfolding occursIn_def by blast
  then have "t @ u = (t @ pre) @ q @ post" by simp
  then show ?thesis unfolding occursIn_def by blast
qed

lemma occursIn_Cons: "occursIn q u \<Longrightarrow> occursIn q (c # u)"
  using occursIn_append_right [of q u "[c]"] by simp

lemma occursIn_self: "occursIn q q"
proof -
  have "q = [] @ q @ []" by simp
  then show ?thesis unfolding occursIn_def by blast
qed

lemma occursIn_joinWith:
  "x \<in> set xs \<Longrightarrow> occursIn q x \<Longrightarrow> occursIn q (joinWith sep xs)"
proof (induction sep xs rule: joinWith.induct)
  case (1 sep)
  then show ?case by simp
next
  case (2 sep x')
  then show ?case by simp
next
  case (3 sep x' y ys)
  then show ?case
    by (auto intro: occursIn_append_left occursIn_append_right)
qed

lemma escapeChar_plain:
  "c \<noteq> CHR 0x22 \<Longrightarrow> c \<noteq> CHR 0x5C \<Longrightarrow> 32 \<le> (of_char c :: nat) \<Longrightarrow> escapeChar c = [c]"
  by (auto simp add: escapeChar_def Let_def)

lemma escapeChars_plain: "plainText s \<Longrightarrow> escapeChars s = s"
  by (induction s) (simp_all add: plainText_def escapeChar_plain)

lemma occursIn_quoted: "plainText s \<Longrightarrow> occursIn s (quoted s)"
  unfolding quoted_def
  by (simp add: escapeChars_plain occursIn_Cons occursIn_append_left occursIn_self)

lemma vendor_in_content:
  assumes "p_vendorName c = Some v" and "plainText v"
  shows "occursIn v (stringifyContent c)"
proof -
  let ?props = "optProp ''category'' (\<lambda>x. quoted (categoryName x)) (p_category c)
      @ optProp ''vendorName'' quoted (p_vendorName c)
      @ optProp ''invoiceNumber'' quoted (p_invoiceNumber c)
      @ optProp ''invoiceDate'' quoted (p_invoiceDate c)
      @ optProp ''field'' quoted (p_field c)
      @ optProp ''pattern'' quoted (p_pattern c)
      @ optProp ''resolutionStatus'' (\<lambda>x. quoted (statusName x)) (p_resolutionStatus c)
      @ optProp ''confidence'' showNumber (p_confidence c)
      @ optProp ''usageCount'' showInt (p_usageCount c)
      @ optProp ''metadata'' stringifyMetadata (p_metadata c)"
  have m: "(''vendorName'', quoted v) \<in> set ?props"
    using assms(1) by (simp add: optProp_def)
  have "occursIn v (quoted ''vendorName'' @ '':'' @ quoted v)"
    by (intro occursIn_append_right occursIn_quoted assms(2))
  moreover have "(quoted ''vendorName'' @ '':'' @ quoted v)
      \<in> set (map (\<lambda>(k, v). quoted k @ '':'' @ v) ?props)"
    using m by force
  ultimately have "occursIn v (joinWith '','' (map (\<lambda>(k, v). quoted k @ '':'' @ v) ?props))"
    by (rule occursIn_joinWith [rotated])
  then show ?thesis
    unfolding stringifyContent_def stringifyObject_def
    by (intro occursIn_append_right occursIn_append_left)
qed

lemma search_finds_vendor:
  assumes "content m = Json c" and "p_vendorName c = Some v" and "plainText v"
  shows "searchMemories [m] v (Suc k) = [m]"
  using like_occursIn [OF vendor_in_content [OF assms(2,3)]] assms(1)
  by (simp add: searchMemories_def contentText_def)

lemma search_unknown:
  "list_all (\<lambda>m. \<not> mentions q m) repo \<Longrightarrow> searchMemories repo q k = []"
  by (simp add: searchMemories_def mentions_def list_all_iff filter_empty_conv)

lemma search_append_unknown:
  "list_all (\<lambda>m. \<not> mentions q m) repo \<Longrightarrow>
     searchMemories (repo @ [m]) q k = searchMemories [m] q k"
  by (simp add: searchMemories_def mentions_def list_all_iff filter_empty_conv)

lemma unknownInvoice_parts:
  assumes "unknownInvoice repo nv"
  shows "list_all (\<lambda>m. \<not> mentions (inv_vendorName nv) m) repo"
    and "list_all (\<lambda>m. \<not> mentions (inv_invoiceNumber nv) m) repo"
  using assms by (simp_all add: unknownInvoice_def list_all_iff)

lemma recall_unknown:
  assumes "unknownInvoice repo nv"
  shows "recallMemories repo (queryOf nv raw) = emptyRecall False"
  using unknownInvoice_parts [OF assms]
  by (simp add: recallMemories_def search_unknown queryOf_def scoreAll_def filterByCategory_def
      emptyRecall_def Let_def)

lemma recall_append_unknown:
  assumes "unknownInvoice repo nv"
  shows "recallMemories (repo @ [m]) (queryOf nv raw) = recallMemories [m] (queryOf nv raw)"
  using unknownInvoice_parts [OF assms]
  by (simp add: recallMemories_def search_append_unknown queryOf_def Let_def)

lemma saveMemory_fresh:
  "getMemoryById repo (m_id m) = None \<Longrightarrow> saveMemory repo m = repo @ [m]"
  by (induction repo) (auto simp add: getMemoryById_def split: if_splits)

lemma find_filter_same: "find P (filter P xs) = find P xs"
  by (induction xs) auto

lemma serviceDateStep_no_candidate:
  "findField (recall (input ctx)) ''serviceDate'' = None \<Longrightarrow> 0 \<le> aggregateConfidence ctx
     \<Longrightarrow> serviceDateStep ctx = ctx"
  by (simp add: serviceDateStep_def maybeApplyFieldFromMemory_def findField_def
      find_filter_same Let_def max_absorb1)

lemma currencyStep_present:
  "currency (normalizedInvoice ctx) \<noteq> [] \<Longrightarrow> currencyStep ctx = ctx"
  by (simp add: currencyStep_def)

lemma skontoStep_absent:
  "detectSkontoTerms (rawText (input ctx)) = None \<Longrightarrow> skontoStep ctx = ctx"
  by (simp add: skontoStep_def)

lemma freightLoop_no_freight:
  "noFreight store items \<Longrightarrow> freightLoop items (store, ctx) = (store, ctx)"
  by (induction items) (auto simp add: noFreight_def freightItem_def split: option.splits)

lemma vatStep_fields:
  "input (vatStep ctx) = input ctx
   \<and> currency (normalizedInvoice (vatStep ctx)) = currency (normalizedInvoice ctx)
   \<and> lineItems (normalizedInvoice (vatStep ctx)) = lineItems (normalizedInvoice ctx)"
  by (simp add: vatStep_def Let_def)

lemma apply_only_vat:
  assumes "findField (recall inp) ''serviceDate'' = None"
    and "currency (invoice inp) \<noteq> []"
    and "noFreight store (lineItems (invoice inp))"
    and "detectSkontoTerms (rawText inp) = None"
  shows "applyMemoriesToContext store inp =
     (store, vatStep \<lparr> input = inp, memories = map memory (allMemories (recall inp)),
                    normalizedInvoice = invoice inp, proposedCorrections = [],
                    appliedMemories = [], aggregateConfidence = 0 \<rparr>)"
proof -
  let ?ctx0 = "\<lparr> input = inp, memories = map memory (allMemories (recall inp)),
                    normalizedInvoice = invoice inp, proposedCorrections = [],
                    appliedMemories = [], aggregateConfidence = 0 \<rparr>"
  have s: "serviceDateStep ?ctx0 = ?ctx0"
    using assms(1) by (intro serviceDateStep_no_candidate) simp_all
  have c: "currencyStep (vatStep ?ctx0) = vatStep ?ctx0"
    using assms(2) vatStep_fields [of ?ctx0] by (intro currencyStep_present) simp
  have f: "freightLoop (lineItems (normalizedInvoice (vatStep ?ctx0))) (store, vatStep ?ctx0)
      = (store, vatStep ?ctx0)"
    using assms(3) vatStep_fields [of ?ctx0] by (intro freightLoop_no_freight) simp
  have "detectSkontoTerms (rawText (input (vatStep ?ctx0))) = None"
    using assms(4) vatStep_fields [of ?ctx0] by simp
  then have k: "skontoStep (vatStep ?ctx0) = vatStep ?ctx0"
    by (rule skontoStep_absent)
  show ?thesis
    unfolding applyMemoriesToContext_def Let_def s c f by (simp add: k)
qed

lemma toFixed2_tax: "toFixed2 (119 - 119 / 1.19) = 19" and toFixed2_gross: "toFixed2 119 = 119"
  by (simp_all add: toFixed2_def)

lemma toFixed2_19: "toFixed2 19 = 19"
  by (simp add: toFixed2_def)

lemma vatStep_medium:
  assumes "detectVatIncluded (rawText inp)" and "totalAmount (invoice inp) = 119"
    and "findField (recall inp) ''vatIncluded'' = None"
  shows "vatStep \<lparr> input = inp, memories = ms, normalizedInvoice = invoice inp,
            proposedCorrections = [], appliedMemories = [], aggregateConfidence = 0 \<rparr>
         = \<lparr> input = inp, memories = ms, normalizedInvoice = invoice inp,
             proposedCorrections = [taxCorrection 0.75 None False], appliedMemories = [],
             aggregateConfidence = 0.75 \<rparr>"
  using assms
  by (simp add: vatStep_def Let_def memConfidence_def registerCorrection_def taxCorrection_def
      HIGH_CONFIDENCE_THRESHOLD_def MEDIUM_CONFIDENCE_THRESHOLD_def toFixed2_19)

lemma vatStep_high:
  assumes "detectVatIncluded (rawText inp)" and "totalAmount (invoice inp) = 119"
    and "findField (recall inp) ''vatIncluded'' = Some m" and "confidence (learned m) = 0.8"
  shows "vatStep \<lparr> input = inp, memories = ms, normalizedInvoice = invoice inp,
            proposedCorrections = [], appliedMemories = [], aggregateConfidence = 0 \<rparr>
         = \<lparr> input = inp, memories = ms,
             normalizedInvoice = (invoice inp)\<lparr> taxAmount := Some 19, grossAmount := Some 119 \<rparr>,
             proposedCorrections = [taxCorrection 0.8 (Some (m_id (memory m))) True],
             appliedMemories = [\<lparr> am_field = ''taxAmount'', am_memoryId = m_id (memory m),
               am_confidence = 0.8, am_applied = True, am_reason = vatReason \<rparr>],
             aggregateConfidence = 0.8 \<rparr>"
  using assms
  by (simp add: vatStep_def Let_def memConfidence_def memIdOr_def registerCorrection_def
      taxCorrection_def HIGH_CONFIDENCE_THRESHOLD_def toFixed2_19 toFixed2_gross)

lemma run_result:
  assumes "fst r = st" and "fst (snd r) = store" and "snd (snd r) = out"
  shows "r = (st, store, out)"
  using assms by (cases r) auto

lemma first_run_general:
  assumes "detectVatIncluded raw" and "totalAmount nv = 119" and "currency nv \<noteq> []"
    and "noFreight store (lineItems nv)" and "detectSkontoTerms raw = None"
    and "unknownInvoice repo nv"
  shows "\<exists>out. processInvoiceWithMemory gen now (repo, n) store nv raw None
                 = ((repo, n), store, Inr out)
           \<and> out_proposedCorrections out = [taxCorrection 0.75 None False]
           \<and> out_normalizedInvoice out = nv
           \<and> out_requiresHumanReview out"
proof -
  let ?inp = "\<lparr> invoice = nv, rawText = raw, recall = emptyRecall False \<rparr>"
  have r: "recallMemories (fst (repo, n)) (queryOf nv raw) = emptyRecall False"
    using recall_unknown [OF assms(6)] by simp
  have a: "applyMemoriesToContext store ?inp =
     (store, \<lparr> input = ?inp, memories = [], normalizedInvoice = nv,
             proposedCorrections = [taxCorrection 0.75 None False], appliedMemories = [],
             aggregateConfidence = 0.75 \<rparr>)"
    using assms(1-5) vatStep_medium [of ?inp "[]"]
    by (simp add: apply_only_vat findField_def emptyRecall_def)
  from process_returns(1) [of gen now "(repo, n)" store nv raw]
  obtain out where out: "snd (snd (processInvoiceWithMemory gen now (repo, n) store nv raw None))
      = Inr out"
    by blast
  note f = process_output(1-3) [OF out]
  have p: "out_proposedCorrections out = [taxCorrection 0.75 None False]"
    unfolding f(1) r a by simp
  have v: "out_normalizedInvoice out = nv"
    unfolding f(2) r a by simp
  have h: "out_requiresHumanReview out"
    unfolding f(3) r a
    by (simp add: decide_review_eq mediumConfidenceSuggestions_def taxCorrection_def)
  have s: "fst (processInvoiceWithMemory gen now (repo, n) store nv raw None) = (repo, n)"
    by (simp add: process_state)
  have t: "fst (snd (processInvoiceWithMemory gen now (repo, n) store nv raw None)) = store"
    unfolding process_state(1) r a by simp
  from run_result [OF s t out] p v h show ?thesis by blast
qed

lemma not_line_item_sku: "\<not> isLineItemSku (Some ''taxAmount'')"
  by (simp add: isLineItemSku_def)

lemma created_vat_content:
  assumes "d_field d = Some ''taxAmount''" and "d_value d = Some (JNum 19)"
  shows "createdContent d True =
     \<lparr> p_category = Some Vendor, p_vendorName = d_vendorName d,
       p_invoiceNumber = d_invoiceNumber d, p_invoiceDate = d_invoiceDate d,
       p_field = Some ''vatIncluded'', p_pattern = None, p_resolutionStatus = None,
       p_confidence = Some 0.8, p_usageCount = Some 1,
       p_metadata = Some [(''field'', JStr ''taxAmount''), (''value'', JNum 19)] \<rparr>"
  using assms
  by (simp add: createdContent_def Let_def isVatField_def not_line_item_sku assignProp_def)

lemma feedback_creates_vat_memory:
  assumes "''taxAmount'' \<in> set (approvedCorrections fb)" and "gen (Suc n) \<noteq> []"
    and "getMemoryById repo (gen (Suc n)) = None"
  shows "feedbackLoop gen now nv dup fb [taxCorrection 0.75 None False] (repo, n) =
     ((repo @ [learnedVat nv (gen (Suc n)) now], Suc (Suc n)),
      Inr [\<lparr> mu_memoryId = gen (Suc n), previousConfidence = 0.7, newConfidence = 0.8,
          mu_usageCount = 1, action = Reinforce \<rparr>])"
  using assms
  by (simp add: feedbackStep_def Let_def uuidv4_def taxCorrection_def learnFromSignal_def
      created_vat_content tryProperties_Json learnedVat_def saveMemory_fresh)

lemma learning_run_general:
  assumes "detectVatIncluded raw" and "totalAmount nv = 119" and "currency nv \<noteq> []"
    and "noFreight store (lineItems nv)" and "detectSkontoTerms raw = None"
    and "unknownInvoice repo nv"
    and "''taxAmount'' \<in> set (approvedCorrections fb)" and "gen (Suc n) \<noteq> []"
    and "getMemoryById repo (gen (Suc n)) = None"
  shows "\<exists>out. processInvoiceWithMemory gen now (repo, n) store nv raw (Some fb)
           = ((repo @ [learnedVat nv (gen (Suc n)) now], Suc (Suc n)), store, Inr out)"
proof -
  let ?rc = "recallMemories (fst (repo, n)) (queryOf nv raw)"
  let ?ap = "applyMemoriesToContext store \<lparr> invoice = nv, rawText = raw, recall = ?rc \<rparr>"
  from first_run_general [OF assms(1-6), of gen now n]
  obtain out1 where one: "processInvoiceWithMemory gen now (repo, n) store nv raw None
      = ((repo, n), store, Inr out1)"
    and pc: "out_proposedCorrections out1 = [taxCorrection 0.75 None False]"
    by blast
  from one have o: "snd (snd (processInvoiceWithMemory gen now (repo, n) store nv raw None))
      = Inr out1"
    by simp
  from process_output(1) [OF o] pc
  have p: "proposedCorrections (snd ?ap) = [taxCorrection 0.75 None False]"
    by simp
  from one have "fst (snd (processInvoiceWithMemory gen now (repo, n) store nv raw None)) = store"
    by simp
  then have s: "fst ?ap = store"
    by (simp only: process_state(1))
  note loop = feedback_creates_vat_memory [where gen = gen and n = n and fb = fb
      and nv = nv and now = now and repo = repo and dup = "duplicateDetected ?rc",
      OF assms(7-9)]
  have l: "snd (feedbackLoop gen now nv (duplicateDetected ?rc) fb (proposedCorrections (snd ?ap))
       (repo, n))
      = Inr [\<lparr> mu_memoryId = gen (Suc n), previousConfidence = 0.7, newConfidence = 0.8,
          mu_usageCount = 1, action = Reinforce \<rparr>]"
    unfolding p loop by simp
  from process_returns(2) [OF l]
  obtain out where out: "snd (snd (processInvoiceWithMemory gen now (repo, n) store nv raw (Some fb)))
      = Inr out"
    by blast
  have e: "fst (processInvoiceWithMemory gen now (repo, n) store nv raw (Some fb))
      = (repo @ [learnedVat nv (gen (Suc n)) now], Suc (Suc n))"
    unfolding process_state(3) p loop by simp
  have t: "fst (snd (processInvoiceWithMemory gen now (repo, n) store nv raw (Some fb))) = store"
    unfolding process_state(1) by (rule s)
  from run_result [OF e t out] show ?thesis by blast
qed

lemma search_one: "searchMemories [m] q k = [] \<or> searchMemories [m] q k = [m]"
  by (cases k) (auto simp add: searchMemories_def)

lemma search_vendor_found:
  assumes "content m = Json c" and "p_vendorName c = Some v" and "plainText v" and "0 < k"
  shows "searchMemories [m] v k = [m]"
  using search_finds_vendor [OF assms(1-3), of "k - 1"] assms(4) by simp

lemma recall_learned_vat:
  assumes "plainText (inv_vendorName nv)"
  shows "\<exists>sm. recallMemories [learnedVat nv i now] (queryOf nv raw) =
           \<lparr> vendorMemories = [sm], correctionMemories = [], resolutionMemories = [],
             duplicateDetected = False, duplicateScore = 0, duplicateReason = None,
             allMemories = [sm] \<rparr>
         \<and> memory sm = learnedVat nv i now \<and> field (learned sm) = Some ''vatIncluded''
         \<and> confidence (learned sm) = 0.8"
proof -
  let ?m = "learnedVat nv i now"
  let ?q = "queryOf nv raw"
  have v: "searchMemories [?m] (q_vendorName ?q) 50 = [?m]"
    by (rule search_vendor_found [where c = "\<lparr> p_category = Some Vendor,
        p_vendorName = Some (inv_vendorName nv), p_invoiceNumber = Some (inv_invoiceNumber nv),
        p_invoiceDate = Some (toISOString (issuedAt nv)), p_field = Some ''vatIncluded'',
        p_pattern = None, p_resolutionStatus = None, p_confidence = Some 0.8,
        p_usageCount = Some 1,
        p_metadata = Some [(''field'', JStr ''taxAmount''), (''value'', JNum 19)] \<rparr>"])
       (simp_all add: learnedVat_def queryOf_def assms)
  have c: "foldl saveMemory [] (searchMemories [?m] (q_vendorName ?q) 50
             @ searchMemories [?m] (q_invoiceNumber ?q) 50) = [?m]"
    using search_one [of ?m "q_invoiceNumber ?q" 50] unfolding v by auto
  have l: "q_limit ?q = None" by (simp add: queryOf_def)
  show ?thesis
    unfolding recallMemories_def Let_def l option.case c
    by (simp add: scoreAll_def parseLearnedContent_def tryProperties_Json learnedVat_def
        filterByCategory_def isDuplicateCandidate_def)
qed

lemma second_run_general:
  assumes "detectVatIncluded raw" and "totalAmount nv = 119" and "currency nv \<noteq> []"
    and "noFreight store (lineItems nv)" and "detectSkontoTerms raw = None"
    and "plainText (inv_vendorName nv)" and "unknownInvoice repo nv"
  shows "\<exists>out. snd (snd (processInvoiceWithMemory gen now'
             (repo @ [learnedVat nv i now], k) store nv raw None)) = Inr out
           \<and> out_proposedCorrections out = [taxCorrection 0.8 (Some i) True]
           \<and> taxAmount (out_normalizedInvoice out) = Some 19
           \<and> \<not> out_requiresHumanReview out"
proof -
  from recall_learned_vat [OF assms(6), of i now raw]
  obtain sm where r1: "recallMemories [learnedVat nv i now] (queryOf nv raw) =
           \<lparr> vendorMemories = [sm], correctionMemories = [], resolutionMemories = [],
             duplicateDetected = False, duplicateScore = 0, duplicateReason = None,
             allMemories = [sm] \<rparr>"
    and sm: "memory sm = learnedVat nv i now" "field (learned sm) = Some ''vatIncluded''"
      "confidence (learned sm) = 0.8"
    by blast
  let ?rc = "recallMemories (repo @ [learnedVat nv i now]) (queryOf nv raw)"
  have r: "?rc =
           \<lparr> vendorMemories = [sm], correctionMemories = [], resolutionMemories = [],
             duplicateDetected = False, duplicateScore = 0, duplicateReason = None,
             allMemories = [sm] \<rparr>"
    using recall_append_unknown [OF assms(7), of "learnedVat nv i now" raw] r1 by simp
  let ?inp = "\<lparr> invoice = nv, rawText = raw, recall = ?rc \<rparr>"
  have f1: "findField (recall ?inp) ''serviceDate'' = None"
    using sm(2) by (simp add: r findField_def)
  have f2: "findField (recall ?inp) ''vatIncluded'' = Some sm"
    using sm(2) by (simp add: r findField_def)
  have i: "m_id (memory sm) = i" using sm(1) by (simp add: learnedVat_def)
  have a: "applyMemoriesToContext store ?inp =
     (store, \<lparr> input = ?inp, memories = map memory (allMemories ?rc),
             normalizedInvoice = nv\<lparr> taxAmount := Some 19, grossAmount := Some 119 \<rparr>,
             proposedCorrections = [taxCorrection 0.8 (Some i) True],
             appliedMemories = [\<lparr> am_field = ''taxAmount'', am_memoryId = i,
               am_confidence = 0.8, am_applied = True, am_reason = vatReason \<rparr>],
             aggregateConfidence = 0.8 \<rparr>)"
    using apply_only_vat [of ?inp store] assms(3-5) f1
      vatStep_high [of ?inp sm "map memory (allMemories ?rc)"] assms(1,2) f2 sm(3) i
    by simp
  have d: "\<not> duplicateDetected ?rc" by (simp add: r)
  from process_returns(1) [of gen now' "(repo @ [learnedVat nv i now], k)" store nv raw]
  obtain out where out: "snd (snd (processInvoiceWithMemory gen now'
             (repo @ [learnedVat nv i now], k) store nv raw None)) = Inr out"
    by blast
  note f = process_output(1-3) [OF out]
  have p: "out_proposedCorrections out = [taxCorrection 0.8 (Some i) True]"
    unfolding f(1) fst_conv a by simp
  have v: "taxAmount (out_normalizedInvoice out) = Some 19"
    unfolding f(2) fst_conv a by simp
  have h: "\<not> out_requiresHumanReview out"
    unfolding f(3) fst_conv a using d
    by (simp add: decide_review_eq mediumConfidenceSuggestions_def
        highConfidenceApplied_def taxCorrection_def)
  from out p v h show ?thesis by blast
qed

lemma startsWith_map: "startsWith s p \<Longrightarrow> startsWith (map f s) (map f p)"
  by (induction s p rule: startsWith.induct) (auto split: if_splits)

lemma includesStr_map: "includesStr s p \<Longrightarrow> includesStr (map f s) (map f p)"
proof (induction s)
  case Nil
  then show ?case by simp
next
  case (Cons a s)
  show ?case
  proof (cases "startsWith (a # s) p")
    case True
    from startsWith_map [OF True, of f] show ?thesis by simp
  next
    case False
    with Cons.prems have "includesStr s p" by simp
    from Cons.IH [OF this] show ?thesis by simp
  qed
qed

lemma startsWith_shorter: "startsWith s (p @ q) \<Longrightarrow> startsWith s p"
  by (induction s p rule: startsWith.induct) (auto split: if_splits)

lemma includesStr_shorter: "includesStr s (p @ q) \<Longrightarrow> includesStr s p"
  by (induction s) (auto simp add: startsWith_shorter split: if_splits)

lemma lower_inkl: "toLowerCase ''inkl. MwSt.'' = ''inkl. mwst'' @ ''.''"
  by code_simp

lemma detects_inkl_mwst:
  assumes "includesStr raw ''inkl. MwSt.''"
  shows "detectVatIncluded raw"
proof -
  from includesStr_map [OF assms, of toLowerChar]
  have "includesStr (toLowerCase raw) (''inkl. mwst'' @ ''.'')"
    unfolding toLowerCase_def [symmetric] lower_inkl .
  then have "includesStr (toLowerCase raw) ''inkl. mwst''"
    by (rule includesStr_shorter)
  then show ?thesis by (simp add: detectVatIncluded_def)
qed

text \<open>
  C6, as amended. No memory of the repository is found by a search for the invoice's
  vendor name or number; the raw text contains "inkl. MwSt.", the gross total is 119, and
  nothing else in the invoice triggers a heuristic: the currency is present, no line item
  looks like freight, the text has no "skonto". The vendor name has no double quote, no
  backslash and no control character, so the stored JSON holds it as it is and the text
  search finds it. The identifier drawn for the new memory is not empty and not in use.
  Then the first run returns an output that proposes \<open>taxAmount = 19\<close> at confidence
  0.75, not applied, and requires review. The run with feedback that approves
  \<open>taxAmount\<close> returns, and the repository then holds, under the fresh identifier, a
  memory of category \<open>vendor\<close> for the field \<open>vatIncluded\<close> with confidence 0.8. The
  next run of the same invoice returns an output that applies \<open>taxAmount = 19\<close> at
  confidence 0.8 from that memory and does not require review.
\<close>

theorem scenario_A:
  assumes "includesStr raw ''inkl. MwSt.''" and "totalAmount nv = 119"
    and "currency nv \<noteq> []" and "noFreight store (lineItems nv)"
    and "detectSkontoTerms raw = None" and "plainText (inv_vendorName nv)"
    and "unknownInvoice repo nv"
    and "''taxAmount'' \<in> set (approvedCorrections fb)"
    and "gen (Suc n) \<noteq> []" and "getMemoryById repo (gen (Suc n)) = None"
  shows "\<exists>out1 st2 store2 out2 out3.
           processInvoiceWithMemory gen now (repo, n) store nv raw None
             = ((repo, n), store, Inr out1)
         \<and> out_proposedCorrections out1 = [taxCorrection 0.75 None False]
         \<and> out_requiresHumanReview out1
         \<and> processInvoiceWithMemory gen now (repo, n) store nv raw (Some fb)
             = (st2, store2, Inr out2)
         \<and> (\<exists>m c. getMemoryById (fst st2) (gen (Suc n)) = Some m \<and> content m = Json c
               \<and> p_category c = Some Vendor \<and> p_field c = Some ''vatIncluded''
               \<and> p_confidence c = Some 0.8)
         \<and> snd (snd (processInvoiceWithMemory gen now' st2 store2 nv raw None)) = Inr out3
         \<and> out_proposedCorrections out3 = [taxCorrection 0.8 (Some (gen (Suc n))) True]
         \<and> taxAmount (out_normalizedInvoice out3) = Some 19
         \<and> \<not> out_requiresHumanReview out3"
proof -
  have v: "detectVatIncluded raw" by (rule detects_inkl_mwst [OF assms(1)])
  from first_run_general [OF v assms(2-5) assms(7), of gen now n]
  obtain out1 where one: "processInvoiceWithMemory gen now (repo, n) store nv raw None
        = ((repo, n), store, Inr out1)"
      "out_proposedCorrections out1 = [taxCorrection 0.75 None False]"
      "out_requiresHumanReview out1"
    by blast
  from learning_run_general [where gen = gen and n = n and fb = fb and now = now,
      OF v assms(2-5) assms(7-10)]
  obtain out2 where two: "processInvoiceWithMemory gen now (repo, n) store nv raw (Some fb)
        = ((repo @ [learnedVat nv (gen (Suc n)) now], Suc (Suc n)), store, Inr out2)"
    by blast
  from second_run_general [OF v assms(2-7), of gen now' "gen (Suc n)" now "Suc (Suc n)"]
  obtain out3 where three: "snd (snd (processInvoiceWithMemory gen now'
        (repo @ [learnedVat nv (gen (Suc n)) now], Suc (Suc n)) store nv raw None)) = Inr out3"
      "out_proposedCorrections out3 = [taxCorrection 0.8 (Some (gen (Suc n))) True]"
      "taxAmount (out_normalizedInvoice out3) = Some 19"
      "\<not> out_requiresHumanReview out3"
    by blast
  have "getMemoryById repo (m_id (learnedVat nv (gen (Suc n)) now)) = None"
    using assms(10) by (simp add: learnedVat_def)
  from saveMemory_fresh [OF this]
    getMemoryById_saveMemory [of repo "learnedVat nv (gen (Suc n)) now" "gen (Suc n)"]
  have "getMemoryById (repo @ [learnedVat nv (gen (Suc n)) now]) (gen (Suc n))
      = Some (learnedVat nv (gen (Suc n)) now)"
    by (simp add: learnedVat_def)
  then have m: "\<exists>m c. getMemoryById (fst (repo @ [learnedVat nv (gen (Suc n)) now], Suc (Suc n)))
        (gen (Suc n)) = Some m \<and> content m = Json c
      \<and> p_category c = Some Vendor \<and> p_field c = Some ''vatIncluded''
      \<and> p_confidence c = Some 0.8"
    by (simp add: learnedVat_def)
  from one two three m show ?thesis by blast
qed

lemma freight_memory_unknown: "unknownInvoice [freightMemory 0.85] invoiceA"
  by code_simp

theorem scenario_A_witness:
  "\<exists>out1 st2 store2 out2 out3.
     processInvoiceWithMemory sampleUuid 9 ([freightMemory 0.85], 0) Map.empty invoiceA rawTextA
         None
       = (([freightMemory 0.85], 0), Map.empty, Inr out1)
     \<and> out_proposedCorrections out1 = [taxCorrection 0.75 None False]
     \<and> out_requiresHumanReview out1
     \<and> processInvoiceWithMemory sampleUuid 9 ([freightMemory 0.85], 0) Map.empty invoiceA
           rawTextA (Some approveTax)
         = (st2, store2, Inr out2)
     \<and> (\<exists>m c. getMemoryById (fst st2) (sampleUuid (Suc 0)) = Some m \<and> content m = Json c
           \<and> p_category c = Some Vendor \<and> p_field c = Some ''vatIncluded''
           \<and> p_confidence c = Some 0.8)
     \<and> snd (snd (processInvoiceWithMemory sampleUuid 10 st2 store2 invoiceA rawTextA None))
         = Inr out3
     \<and> out_proposedCorrections out3 = [taxCorrection 0.8 (Some (sampleUuid (Suc 0))) True]
     \<and> taxAmount (out_normalizedInvoice out3) = Some 19
     \<and> \<not> out_requiresHumanReview out3"
proof -
  have h1: "includesStr rawTextA ''inkl. MwSt.''" by code_simp
  have h2: "totalAmount invoiceA = 119" by (simp add: invoiceA_def)
  have h3: "currency invoiceA \<noteq> []" by (simp add: invoiceA_def)
  have h4: "noFreight Map.empty (lineItems invoiceA)" by (simp add: invoiceA_def noFreight_def)
  have h5: "detectSkontoTerms rawTextA = None" by code_simp
  have h6: "plainText (inv_vendorName invoiceA)" by code_simp
  have h7: "''taxAmount'' \<in> set (approvedCorrections approveTax)" by (simp add: approveTax_def)
  have h8: "sampleUuid (Suc 0) \<noteq> []" by (simp add: sampleUuid_def)
  have h9: "getMemoryById [freightMemory 0.85] (sampleUuid (Suc 0)) = None"
    by (simp add: getMemoryById_def freightMemory_def sampleUuid_def)
  show ?thesis
    by (rule scenario_A [where gen = sampleUuid and n = 0 and fb = approveTax
          and nv = invoiceA and raw = rawTextA and store = Map.empty
          and repo = "[freightMemory 0.85]",
          OF h1 h2 h3 h4 h5 h6 freight_memory_unknown h7 h8 h9])
qed

text \<open>
  The claim as stated fails: the memory the approval creates has confidence 0.8, the
  initial confidence of the create path, not 0.85. And the second run still requires
  review when another heuristic keeps proposing: here the text also mentions Skonto,
  whose suggestion stays at the default confidence 0.75.
\<close>

theorem scenario_A_counterexample:
  "map (\<lambda>m. (map_option p_category (tryProperties (content m)),
              map_option p_field (tryProperties (content m)), storedConfidence m))
     (fst (fst (processInvoiceWithMemory sampleUuid 9 ([], 0) Map.empty invoiceA rawTextA
        (Some approveTax))))
   = [(Some (Some Vendor), Some (Some ''vatIncluded''), 0.8)]
   \<and> (0.8 :: real) \<noteq> 0.85
   \<and> includesStr rawTextSkonto ''inkl. MwSt.''
   \<and> (case snd (snd (processInvoiceWithMemory sampleUuid 10
        (fst (processInvoiceWithMemory sampleUuid 9 ([], 0) Map.empty invoiceA rawTextSkonto
           (Some approveTax)))
        Map.empty invoiceA rawTextSkonto None)) of
        Inl e \<Rightarrow> False
      | Inr out \<Rightarrow> out_requiresHumanReview out)"
  by code_simp

section \<open>Apply: what happens to the line-item store\<close>

text \<open>The freight loop is the only writer of line items, and it writes the \<open>sku\<close> only:
  every address keeps its item up to that field, and no address is added or removed.\<close>

lemma skuOnly_refl: "skuOnly store store"
  by (simp add: skuOnly_def sameButSku_def option.rel_refl)

lemma sameButSku_trans: "sameButSku x y \<Longrightarrow> sameButSku y z \<Longrightarrow> sameButSku x z"
  by (simp add: sameButSku_def)

lemma skuOnly_trans: "skuOnly s1 s2 \<Longrightarrow> skuOnly s2 s3 \<Longrightarrow> skuOnly s1 s3"
  unfolding skuOnly_def
proof
  fix a
  assume h1: "\<forall>a. rel_option sameButSku (s1 a) (s2 a)"
    and h2: "\<forall>a. rel_option sameButSku (s2 a) (s3 a)"
  from h1 have a1: "rel_option sameButSku (s1 a) (s2 a)" by blast
  from h2 have a2: "rel_option sameButSku (s2 a) (s3 a)" by blast
  from a1 a2 show "rel_option sameButSku (s1 a) (s3 a)"
    by (cases "s1 a"; cases "s2 a"; cases "s3 a") (auto intro: sameButSku_trans)
qed

lemma skuOnly_update:
  "store a = Some item \<Longrightarrow> skuOnly store (store(a \<mapsto> item\<lparr> sku := v \<rparr>))"
  by (simp add: skuOnly_def sameButSku_def option.rel_refl)

lemma freightItem_skuOnly: "skuOnly (fst st) (fst (freightItem a st))"
  by (cases st)
     (simp add: freightItem_def Let_def skuOnly_refl skuOnly_update split: option.splits)

lemma freightLoop_skuOnly: "skuOnly (fst st) (fst (freightLoop items st))"
proof (induction items arbitrary: st)
  case Nil
  show ?case by (simp add: skuOnly_refl)
next
  case (Cons a items)
  from skuOnly_trans [OF freightItem_skuOnly [of st a] Cons.IH [of "freightItem a st"]]
  show ?case by simp
qed

lemma apply_fst:
  "fst (applyMemoriesToContext store inp) =
     fst (freightLoop
       (lineItems (normalizedInvoice (currencyStep (vatStep (serviceDateStep
          \<lparr> input = inp, memories = map memory (allMemories (recall inp)),
            normalizedInvoice = invoice inp, proposedCorrections = [],
            appliedMemories = [], aggregateConfidence = 0 \<rparr>)))))
       (store, currencyStep (vatStep (serviceDateStep
          \<lparr> input = inp, memories = map memory (allMemories (recall inp)),
            normalizedInvoice = invoice inp, proposedCorrections = [],
            appliedMemories = [], aggregateConfidence = 0 \<rparr>))))"
  by (simp add: applyMemoriesToContext_def Let_def split_beta)

lemma apply_touches_sku_only: "skuOnly store (fst (applyMemoriesToContext store inp))"
  unfolding apply_fst
  using freightLoop_skuOnly [of "(store, currencyStep (vatStep (serviceDateStep
          \<lparr> input = inp, memories = map memory (allMemories (recall inp)),
            normalizedInvoice = invoice inp, proposedCorrections = [],
            appliedMemories = [], aggregateConfidence = 0 \<rparr>)))"]
  by simp

end
